theory Spec2Isabelle
  imports Complex_Main "HOL-Library.Monad_Syntax"
begin

section \<open>JSON values and the zod primitives used by \<open>shared/schema.ts\<close>\<close>

text \<open>
  Request bodies arrive as parsed JSON. A JSON number is kept as the rational that its
  literal denotes. The server routes below only store numbers and hand them back; the
  numbers in their concrete runs are small integers, which doubles hold exactly. The
  arithmetic that the browser does on numbers is modelled on doubles, in the section on
  the sales report. An object is an association list; a key that is written twice keeps
  its last value, as \<open>JSON.parse\<close> does.
\<close>

type_synonym number = rat

datatype json =
    JNull
  | JBool bool
  | JNum number
  | JStr string
  | JArr "json list"
  | JObj "(string \<times> json) list"

text \<open>\<open>obj[key]\<close>: \<open>None\<close> is JavaScript's \<open>undefined\<close>.\<close>

fun jget :: "json \<Rightarrow> string \<Rightarrow> json option" where
  "jget (JObj kvs) k = map_of (rev kvs) k"
| "jget _ k = None"

text \<open>JavaScript truthiness of a value that may be \<open>undefined\<close>.\<close>

fun truthy :: "json option \<Rightarrow> bool" where
  "truthy None = False"
| "truthy (Some JNull) = False"
| "truthy (Some (JBool b)) = b"
| "truthy (Some (JNum n)) = (n \<noteq> 0)"
| "truthy (Some (JStr s)) = (s \<noteq> [])"
| "truthy (Some (JArr _)) = True"
| "truthy (Some (JObj _)) = True"

text \<open>\<open>a || b\<close>.\<close>

definition js_or :: "json option \<Rightarrow> json option \<Rightarrow> json option" where
  "js_or a b = (if truthy a then a else b)"

text \<open>
  The zod primitives. Each takes the value found under a key (\<open>None\<close> when the key is
  absent) and returns \<open>None\<close> where \<open>parse\<close> throws.
\<close>

definition z_string :: "json option \<Rightarrow> string option" where
  "z_string v = (case v of Some (JStr s) \<Rightarrow> Some s | _ \<Rightarrow> None)"

definition z_number :: "json option \<Rightarrow> number option" where
  "z_number v = (case v of Some (JNum n) \<Rightarrow> Some n | _ \<Rightarrow> None)"

definition z_boolean :: "json option \<Rightarrow> bool option" where
  "z_boolean v = (case v of Some (JBool b) \<Rightarrow> Some b | _ \<Rightarrow> None)"

text \<open>\<open>z.string().optional()\<close>: only an absent key is accepted besides a string.\<close>

definition z_string_optional :: "json option \<Rightarrow> string option option" where
  "z_string_optional v =
     (case v of None \<Rightarrow> Some None | Some (JStr s) \<Rightarrow> Some (Some s) | _ \<Rightarrow> None)"

text \<open>\<open>z.number().default(0)\<close>.\<close>

definition z_number_default0 :: "json option \<Rightarrow> number option" where
  "z_number_default0 v =
     (case v of None \<Rightarrow> Some 0 | Some (JNum n) \<Rightarrow> Some n | _ \<Rightarrow> None)"

text \<open>\<open>z.string().min(1)\<close>.\<close>

definition z_string_min1 :: "json option \<Rightarrow> string option" where
  "z_string_min1 v = (case v of Some (JStr s) \<Rightarrow> (if 1 \<le> length s then Some s else None) | _ \<Rightarrow> None)"

section \<open>The environment: libraries the server calls\<close>

text \<open>
  \<open>services/auth.ts\<close> delegates to \<open>bcryptjs\<close> and \<open>jsonwebtoken\<close>, the schemas to zod's
  e-mail pattern, and \<open>storage.ts\<close> to \<open>randomUUID\<close> and \<open>Date\<close>. None of them is part of
  the repository; they are parameters of the model. \<open>jwt_verify\<close> is
  \<open>jwt.verify(token, JWT_SECRET)\<close> at the time of the request: \<open>None\<close> when the signature
  is wrong or the 24h lifetime is over. \<open>uuid k\<close> and \<open>now k\<close> are the results of the
  \<open>k\<close>-th call of \<open>randomUUID()\<close> and of \<open>new Date().toISOString()\<close> within one request.
\<close>

record JWTPayload =
  jp_userId :: string
  jp_companyId :: string
  jp_roleId :: string
  jp_email :: string

record Env =
  isEmail :: "string \<Rightarrow> bool"
  bcrypt_hash :: "string \<Rightarrow> string"
  bcrypt_compare :: "string \<Rightarrow> string \<Rightarrow> bool"
  jwt_sign :: "JWTPayload \<Rightarrow> string"
  jwt_verify :: "string \<Rightarrow> JWTPayload option"
  uuid :: "nat \<Rightarrow> string"
  now :: "nat \<Rightarrow> string"

text \<open>\<open>z.string().email()\<close>.\<close>

definition z_email :: "Env \<Rightarrow> json option \<Rightarrow> string option" where
  "z_email env v = (case v of Some (JStr s) \<Rightarrow> (if isEmail env s then Some s else None) | _ \<Rightarrow> None)"

section \<open>Data model (\<open>shared/schema.ts\<close>)\<close>

text \<open>
  Each \<open>insertXSchema\<close> is \<open>xSchema.omit({id, createdAt, updatedAt})\<close>; the stored type
  extends the insert type by those three fields, which is what the spread
  \<open>{...x, id, createdAt, updatedAt}\<close> of \<open>storage.ts\<close> builds.
\<close>

record InsertCompany =
  c_name :: string
  c_slug :: string
  c_logoUrl :: "string option"
  c_address :: "string option"
  c_phone :: "string option"
  c_email :: "string option"
  c_website :: "string option"
  c_isActive :: bool

record Company = InsertCompany +
  c_id :: string
  c_createdAt :: string
  c_updatedAt :: string

record Role =
  r_id :: string
  r_name :: string
  r_description :: "string option"

record Permission =
  perm_id :: string
  perm_roleId :: string
  perm_module :: string
  perm_canCreate :: bool
  perm_canRead :: bool
  perm_canUpdate :: bool
  perm_canDelete :: bool

record InsertUser =
  u_companyId :: string
  u_roleId :: string
  u_email :: string
  u_password :: string
  u_name :: string
  u_isActive :: bool

record User = InsertUser +
  u_id :: string
  u_createdAt :: string
  u_updatedAt :: string

text \<open>\<open>UserWithRole = User & {role, company, permissions}\<close>.\<close>

record UserWithRole = User +
  u_role :: Role
  u_company :: Company
  u_permissions :: "Permission list"

record InsertProduct =
  pr_companyId :: string
  pr_name :: string
  pr_description :: "string option"
  pr_price :: number
  pr_unit :: "string option"
  pr_category :: "string option"
  pr_taxRate :: number
  pr_isActive :: bool

record Product = InsertProduct +
  pr_id :: string
  pr_createdAt :: string
  pr_updatedAt :: string

record InsertCustomer =
  cu_companyId :: string
  cu_name :: string
  cu_email :: string
  cu_phone :: "string option"
  cu_address :: "string option"
  cu_taxId :: "string option"
  cu_isActive :: bool

record Customer = InsertCustomer +
  cu_id :: string
  cu_createdAt :: string
  cu_updatedAt :: string

datatype invoice_status = pending | paid | overdue | cancelled

record InsertInvoice =
  inv_companyId :: string
  inv_customerId :: string
  inv_invoiceNumber :: string
  inv_date :: string
  inv_dueDate :: string
  inv_subtotal :: number
  inv_tax :: number
  inv_total :: number
  inv_status :: invoice_status
  inv_notes :: "string option"

record Invoice = InsertInvoice +
  inv_id :: string
  inv_createdAt :: string
  inv_updatedAt :: string

text \<open>\<open>insertInvoiceItemSchema = invoiceItemSchema.omit({id})\<close>.\<close>

record InsertInvoiceItem =
  it_invoiceId :: string
  it_productId :: string
  it_description :: string
  it_quantity :: number
  it_unitPrice :: number
  it_total :: number

record InvoiceItem = InsertInvoiceItem +
  it_id :: string

section \<open>The JSON store (\<open>server/storage.ts\<close>)\<close>

text \<open>
  One array per file of \<open>server/data\<close>. \<open>readFile\<close> returns \<open>[]\<close> for a missing or
  unreadable file, so a file is its list of rows. A failing write is outside the model.
\<close>

record Store =
  companies :: "Company list"
  users :: "User list"
  roles :: "Role list"
  permissions :: "Permission list"
  products :: "Product list"
  customers :: "Customer list"
  invoices :: "Invoice list"
  invoice_items :: "InvoiceItem list"

definition getUsers :: "Store \<Rightarrow> string option \<Rightarrow> User list" where
  "getUsers st companyId =
     (case companyId of
        None \<Rightarrow> users st
      | Some c \<Rightarrow> if c \<noteq> [] then filter (\<lambda>u. u_companyId u = c) (users st) else users st)"

definition getUser :: "Store \<Rightarrow> string \<Rightarrow> User option" where
  "getUser st i = find (\<lambda>u. u_id u = i) (getUsers st None)"

definition getUserByEmail :: "Store \<Rightarrow> string \<Rightarrow> User option" where
  "getUserByEmail st e = find (\<lambda>u. u_email u = e) (getUsers st None)"

definition getUserWithRole :: "Store \<Rightarrow> string \<Rightarrow> UserWithRole option" where
  "getUserWithRole st i =
     (case getUser st i of
        None \<Rightarrow> None
      | Some user \<Rightarrow>
          let role = find (\<lambda>r. r_id r = u_roleId user) (roles st);
              company = find (\<lambda>c. c_id c = u_companyId user) (companies st);
              userPermissions = filter (\<lambda>p. perm_roleId p = u_roleId user) (permissions st)
          in (case (role, company) of
                (Some r, Some c) \<Rightarrow> Some (User.extend user (UserWithRole.fields r c userPermissions))
              | _ \<Rightarrow> None))"

definition getUserByEmailWithRole :: "Store \<Rightarrow> string \<Rightarrow> UserWithRole option" where
  "getUserByEmailWithRole st e =
     (case getUserByEmail st e of
        None \<Rightarrow> None
      | Some user \<Rightarrow> getUserWithRole st (u_id user))"

text \<open>The rows of \<open>permissions.json\<close> for a role and a module, in file order.\<close>

definition permission_rows :: "Store \<Rightarrow> string \<Rightarrow> string \<Rightarrow> Permission list" where
  "permission_rows st roleId module_name =
     filter (\<lambda>p. perm_roleId p = roleId \<and> perm_module p = module_name) (permissions st)"

section \<open>Authentication and authorisation middleware (\<open>server/routes.ts\<close>)\<close>

record Request =
  authorization :: "string option"
  params :: "(string \<times> string) list"
  query :: "(string \<times> string) list"
  body :: json

text \<open>A handler's answer: \<open>res.status(c).json({message})\<close> or a payload with its status.\<close>

datatype 'a response = Failure nat string | Success nat 'a

text \<open>The HTTP status of an answer.\<close>

fun status_of :: "'a response \<Rightarrow> nat" where
  "status_of (Failure c m) = c"
| "status_of (Success c x) = c"

definition extractTokenFromHeader :: "string option \<Rightarrow> string option" where
  "extractTokenFromHeader authHeader =
     (case authHeader of
        None \<Rightarrow> None
      | Some h \<Rightarrow> if h = [] \<or> take 7 h \<noteq> ''Bearer '' then None else Some (drop 7 h))"

definition verifyToken :: "Env \<Rightarrow> string \<Rightarrow> JWTPayload option" where
  "verifyToken env token = jwt_verify env token"

definition generateToken :: "Env \<Rightarrow> UserWithRole \<Rightarrow> string" where
  "generateToken env user =
     jwt_sign env \<lparr>jp_userId = u_id user, jp_companyId = u_companyId user,
                   jp_roleId = u_roleId user, jp_email = u_email user\<rparr>"

text \<open>
  \<open>authMiddleware\<close>: \<open>Inl\<close> is the 401 answer, \<open>Inr\<close> is \<open>req.user\<close> handed to the next
  middleware. An empty token string is falsy.
\<close>

definition authMiddleware :: "Env \<Rightarrow> Store \<Rightarrow> Request \<Rightarrow> (nat \<times> string) + UserWithRole" where
  "authMiddleware env st req =
     (case extractTokenFromHeader (authorization req) of
        None \<Rightarrow> Inl (401, ''Authentication required'')
      | Some token \<Rightarrow>
          if token = [] then Inl (401, ''Authentication required'')
          else (case verifyToken env token of
                  None \<Rightarrow> Inl (401, ''Invalid token'')
                | Some payload \<Rightarrow>
                    (case getUserWithRole st (jp_userId payload) of
                       None \<Rightarrow> Inl (401, ''User not found'')
                     | Some user \<Rightarrow> Inr user)))"

datatype action = canCreate | canRead | canUpdate | canDelete

text \<open>\<open>permission[action]\<close>.\<close>

fun perm_flag :: "Permission \<Rightarrow> action \<Rightarrow> bool" where
  "perm_flag p canCreate = perm_canCreate p"
| "perm_flag p canRead = perm_canRead p"
| "perm_flag p canUpdate = perm_canUpdate p"
| "perm_flag p canDelete = perm_canDelete p"

text \<open>
  \<open>requirePermission(module, action)\<close>: \<open>Some\<close> is the 403 answer, \<open>None\<close> is \<open>next()\<close>.
\<close>

definition requirePermission :: "string \<Rightarrow> action \<Rightarrow> UserWithRole \<Rightarrow> (nat \<times> string) option" where
  "requirePermission module_name act user =
     (case find (\<lambda>p. perm_module p = module_name) (u_permissions user) of
        None \<Rightarrow> Some (403, ''Insufficient permissions'')
      | Some permission \<Rightarrow>
          if \<not> perm_flag permission act then Some (403, ''Insufficient permissions'')
          else None)"

text \<open>The client's \<open>hasPermission\<close> (\<open>client/src/lib/auth.ts\<close>).\<close>

definition hasPermission :: "UserWithRole option \<Rightarrow> string \<Rightarrow> action \<Rightarrow> bool" where
  "hasPermission user module_name act =
     (case user of
        None \<Rightarrow> False
      | Some u \<Rightarrow>
          (case find (\<lambda>p. perm_module p = module_name) (u_permissions u) of
             Some permission \<Rightarrow> perm_flag permission act
           | None \<Rightarrow> False))"

text \<open>
  \<open>requireCompanyScope\<close>: \<open>req.params.companyId || req.body.companyId ||
  req.query.companyId\<close>, compared with \<open>!==\<close> against \<open>req.user.companyId\<close>. Route
  parameters and query values are strings here; the body's value is any JSON value.
\<close>

definition requireCompanyScope :: "UserWithRole \<Rightarrow> Request \<Rightarrow> (nat \<times> string) option" where
  "requireCompanyScope user req =
     (if r_name (u_role user) = ''Super Admin'' then None
      else
        let companyId =
              js_or (js_or (map_option JStr (map_of (params req) ''companyId''))
                           (jget (body req) ''companyId''))
                    (map_option JStr (map_of (query req) ''companyId''))
        in if truthy companyId \<and> companyId \<noteq> Some (JStr (u_companyId user))
           then Some (403, ''Access denied to company data'')
           else None)"

section \<open>Schema parsers (\<open>shared/schema.ts\<close>)\<close>

text \<open>
  \<open>schema.parse(value)\<close> as an option: \<open>None\<close> where zod throws. An object schema drops
  unknown keys, and a value that is no object has no key at all, so that its required
  fields fail.
\<close>

definition loginSchema_parse :: "Env \<Rightarrow> json \<Rightarrow> (string \<times> string) option" where
  "loginSchema_parse env b =
     do { email \<leftarrow> z_email env (jget b ''email'');
          password \<leftarrow> z_string_min1 (jget b ''password'');
          Some (email, password) }"

definition insertUserSchema_parse :: "Env \<Rightarrow> json \<Rightarrow> InsertUser option" where
  "insertUserSchema_parse env b =
     do { companyId \<leftarrow> z_string (jget b ''companyId'');
          roleId \<leftarrow> z_string (jget b ''roleId'');
          email \<leftarrow> z_email env (jget b ''email'');
          password \<leftarrow> z_string (jget b ''password'');
          name \<leftarrow> z_string (jget b ''name'');
          isActive \<leftarrow> z_boolean (jget b ''isActive'');
          Some \<lparr>u_companyId = companyId, u_roleId = roleId, u_email = email,
                u_password = password, u_name = name, u_isActive = isActive\<rparr> }"

definition insertProductSchema_parse :: "json \<Rightarrow> InsertProduct option" where
  "insertProductSchema_parse b =
     do { companyId \<leftarrow> z_string (jget b ''companyId'');
          name \<leftarrow> z_string (jget b ''name'');
          description \<leftarrow> z_string_optional (jget b ''description'');
          price \<leftarrow> z_number (jget b ''price'');
          unit \<leftarrow> z_string_optional (jget b ''unit'');
          category \<leftarrow> z_string_optional (jget b ''category'');
          taxRate \<leftarrow> z_number_default0 (jget b ''taxRate'');
          isActive \<leftarrow> z_boolean (jget b ''isActive'');
          Some \<lparr>pr_companyId = companyId, pr_name = name, pr_description = description,
                pr_price = price, pr_unit = unit, pr_category = category,
                pr_taxRate = taxRate, pr_isActive = isActive\<rparr> }"

definition insertCustomerSchema_parse :: "Env \<Rightarrow> json \<Rightarrow> InsertCustomer option" where
  "insertCustomerSchema_parse env b =
     do { companyId \<leftarrow> z_string (jget b ''companyId'');
          name \<leftarrow> z_string (jget b ''name'');
          email \<leftarrow> z_email env (jget b ''email'');
          phone \<leftarrow> z_string_optional (jget b ''phone'');
          address \<leftarrow> z_string_optional (jget b ''address'');
          taxId \<leftarrow> z_string_optional (jget b ''taxId'');
          isActive \<leftarrow> z_boolean (jget b ''isActive'');
          Some \<lparr>cu_companyId = companyId, cu_name = name, cu_email = email,
                cu_phone = phone, cu_address = address, cu_taxId = taxId,
                cu_isActive = isActive\<rparr> }"

text \<open>\<open>z.enum(['pending', 'paid', 'overdue', 'cancelled'])\<close>.\<close>

definition z_status :: "json option \<Rightarrow> invoice_status option" where
  "z_status v =
     (case v of
        Some (JStr s) \<Rightarrow>
          if s = ''pending'' then Some pending
          else if s = ''paid'' then Some paid
          else if s = ''overdue'' then Some overdue
          else if s = ''cancelled'' then Some cancelled
          else None
      | _ \<Rightarrow> None)"

definition insertInvoiceSchema_parse :: "json \<Rightarrow> InsertInvoice option" where
  "insertInvoiceSchema_parse b =
     do { companyId \<leftarrow> z_string (jget b ''companyId'');
          customerId \<leftarrow> z_string (jget b ''customerId'');
          invoiceNumber \<leftarrow> z_string (jget b ''invoiceNumber'');
          date \<leftarrow> z_string (jget b ''date'');
          dueDate \<leftarrow> z_string (jget b ''dueDate'');
          subtotal \<leftarrow> z_number (jget b ''subtotal'');
          tax \<leftarrow> z_number (jget b ''tax'');
          total \<leftarrow> z_number (jget b ''total'');
          status \<leftarrow> z_status (jget b ''status'');
          notes \<leftarrow> z_string_optional (jget b ''notes'');
          Some \<lparr>inv_companyId = companyId, inv_customerId = customerId,
                inv_invoiceNumber = invoiceNumber, inv_date = date, inv_dueDate = dueDate,
                inv_subtotal = subtotal, inv_tax = tax, inv_total = total,
                inv_status = status, inv_notes = notes\<rparr> }"

definition insertInvoiceItemSchema_parse :: "json \<Rightarrow> InsertInvoiceItem option" where
  "insertInvoiceItemSchema_parse b =
     do { invoiceId \<leftarrow> z_string (jget b ''invoiceId'');
          productId \<leftarrow> z_string (jget b ''productId'');
          description \<leftarrow> z_string (jget b ''description'');
          quantity \<leftarrow> z_number (jget b ''quantity'');
          unitPrice \<leftarrow> z_number (jget b ''unitPrice'');
          total \<leftarrow> z_number (jget b ''total'');
          Some \<lparr>it_invoiceId = invoiceId, it_productId = productId,
                it_description = description, it_quantity = quantity,
                it_unitPrice = unitPrice, it_total = total\<rparr> }"

text \<open>\<open>z.array(schema).parse(value)\<close>: an array all of whose elements parse.\<close>

definition z_array :: "(json \<Rightarrow> 'a option) \<Rightarrow> json option \<Rightarrow> 'a list option" where
  "z_array p v = (case v of Some (JArr xs) \<Rightarrow> those (map p xs) | _ \<Rightarrow> None)"

section \<open>Store writes (\<open>server/storage.ts\<close>)\<close>

definition createUser :: "Env \<Rightarrow> Store \<Rightarrow> InsertUser \<Rightarrow> User \<times> Store" where
  "createUser env st user =
     (let newUser = InsertUser.extend user (User.fields (uuid env 0) (now env 0) (now env 1))
      in (newUser, st\<lparr>users := getUsers st None @ [newUser]\<rparr>))"

definition deleteUser :: "Store \<Rightarrow> string \<Rightarrow> bool \<times> Store" where
  "deleteUser st i =
     (let filtered = filter (\<lambda>u. u_id u \<noteq> i) (getUsers st None)
      in if length filtered = length (getUsers st None) then (False, st)
         else (True, st\<lparr>users := filtered\<rparr>))"

definition createProduct :: "Env \<Rightarrow> Store \<Rightarrow> InsertProduct \<Rightarrow> Product \<times> Store" where
  "createProduct env st product =
     (let newProduct = InsertProduct.extend product (Product.fields (uuid env 0) (now env 0) (now env 1))
      in (newProduct, st\<lparr>products := products st @ [newProduct]\<rparr>))"

definition deleteProduct :: "Store \<Rightarrow> string \<Rightarrow> bool \<times> Store" where
  "deleteProduct st i =
     (let filtered = filter (\<lambda>p. pr_id p \<noteq> i) (products st)
      in if length filtered = length (products st) then (False, st)
         else (True, st\<lparr>products := filtered\<rparr>))"

definition createCustomer :: "Env \<Rightarrow> Store \<Rightarrow> InsertCustomer \<Rightarrow> Customer \<times> Store" where
  "createCustomer env st customer =
     (let newCustomer = InsertCustomer.extend customer (Customer.fields (uuid env 0) (now env 0) (now env 1))
      in (newCustomer, st\<lparr>customers := customers st @ [newCustomer]\<rparr>))"

text \<open>
  \<open>createInvoice\<close> stores the invoice as it is given and one row per item,
  \<open>{...item, id: randomUUID(), invoiceId: newInvoice.id}\<close>.
\<close>

definition createInvoice :: "Env \<Rightarrow> Store \<Rightarrow> InsertInvoice \<Rightarrow> InsertInvoiceItem list \<Rightarrow> Invoice \<times> Store" where
  "createInvoice env st invoice items =
     (let newInvoice = InsertInvoice.extend invoice (Invoice.fields (uuid env 0) (now env 0) (now env 1));
          newItems = map (\<lambda>(k, item).
                        (InsertInvoiceItem.extend item (InvoiceItem.fields (uuid env (Suc k))))
                          \<lparr>it_invoiceId := inv_id newInvoice\<rparr>)
                     (enumerate 0 items)
      in (newInvoice, st\<lparr>invoices := invoices st @ [newInvoice],
                         invoice_items := invoice_items st @ newItems\<rparr>))"

section \<open>Routes (\<open>server/routes.ts\<close>)\<close>

text \<open>
  A route is its middleware chain followed by the handler; it returns the answer and the
  store after the request.
\<close>

record AuthUser =
  au_id :: string
  au_email :: string
  au_name :: string
  au_role :: Role
  au_company :: Company
  au_permissions :: "Permission list"

record LoginReply =
  lr_token :: string
  lr_user :: AuthUser

definition comparePassword :: "Env \<Rightarrow> string \<Rightarrow> string \<Rightarrow> bool" where
  "comparePassword env password hash = bcrypt_compare env password hash"

definition hashPassword :: "Env \<Rightarrow> string \<Rightarrow> string" where
  "hashPassword env password = bcrypt_hash env password"

text \<open>\<open>POST /api/auth/login\<close>. It writes nothing, so it returns the answer only.\<close>

definition post_auth_login :: "Env \<Rightarrow> Store \<Rightarrow> Request \<Rightarrow> LoginReply response" where
  "post_auth_login env st req =
     (case loginSchema_parse env (body req) of
        None \<Rightarrow> Failure 400 ''Invalid request data''
      | Some (email, password) \<Rightarrow>
          (case getUserByEmailWithRole st email of
             None \<Rightarrow> Failure 401 ''Invalid credentials''
           | Some user \<Rightarrow>
               if \<not> comparePassword env password (u_password user)
               then Failure 401 ''Invalid credentials''
               else if \<not> u_isActive user
               then Failure 401 ''Account is inactive''
               else Success 200
                      \<lparr>lr_token = generateToken env user,
                       lr_user = \<lparr>au_id = u_id user, au_email = u_email user,
                                  au_name = u_name user, au_role = u_role user,
                                  au_company = u_company user,
                                  au_permissions = u_permissions user\<rparr>\<rparr>))"

text \<open>\<open>POST /api/users\<close>: \<open>authMiddleware\<close>, \<open>requirePermission\<close>, \<open>requireCompanyScope\<close>.\<close>

definition post_users :: "Env \<Rightarrow> Store \<Rightarrow> Request \<Rightarrow> User response \<times> Store" where
  "post_users env st req =
     (case authMiddleware env st req of
        Inl (c, m) \<Rightarrow> (Failure c m, st)
      | Inr user \<Rightarrow>
          (case requirePermission ''users'' canCreate user of
             Some (c, m) \<Rightarrow> (Failure c m, st)
           | None \<Rightarrow>
               (case requireCompanyScope user req of
                  Some (c, m) \<Rightarrow> (Failure c m, st)
                | None \<Rightarrow>
                    (case insertUserSchema_parse env (body req) of
                       None \<Rightarrow> (Failure 400 ''Invalid user data'', st)
                     | Some parsed \<Rightarrow>
                         let hashed = parsed\<lparr>u_password := hashPassword env (u_password parsed)\<rparr>;
                             userData = (if r_name (u_role user) \<noteq> ''Super Admin''
                                         then hashed\<lparr>u_companyId := u_companyId user\<rparr>
                                         else hashed);
                             (created, st') = createUser env st userData
                         in (Success 201 created, st')))))"

text \<open>\<open>DELETE /api/users/:id\<close>.\<close>

definition delete_users :: "Env \<Rightarrow> Store \<Rightarrow> Request \<Rightarrow> unit response \<times> Store" where
  "delete_users env st req =
     (case authMiddleware env st req of
        Inl (c, m) \<Rightarrow> (Failure c m, st)
      | Inr user \<Rightarrow>
          (case requirePermission ''users'' canDelete user of
             Some (c, m) \<Rightarrow> (Failure c m, st)
           | None \<Rightarrow>
               (case requireCompanyScope user req of
                  Some (c, m) \<Rightarrow> (Failure c m, st)
                | None \<Rightarrow>
                    (case map_of (params req) ''id'' of
                       None \<Rightarrow> (Failure 404 ''User not found'', st)
                     | Some i \<Rightarrow>
                         let (deleted, st') = deleteUser st i
                         in if \<not> deleted then (Failure 404 ''User not found'', st)
                            else (Success 204 (), st')))))"

text \<open>\<open>POST /api/products\<close>: \<open>authMiddleware\<close>, \<open>requirePermission\<close>.\<close>

definition post_products :: "Env \<Rightarrow> Store \<Rightarrow> Request \<Rightarrow> Product response \<times> Store" where
  "post_products env st req =
     (case authMiddleware env st req of
        Inl (c, m) \<Rightarrow> (Failure c m, st)
      | Inr user \<Rightarrow>
          (case requirePermission ''products'' canCreate user of
             Some (c, m) \<Rightarrow> (Failure c m, st)
           | None \<Rightarrow>
               (case insertProductSchema_parse (body req) of
                  None \<Rightarrow> (Failure 400 ''Invalid product data'', st)
                | Some parsed \<Rightarrow>
                    let productData = parsed\<lparr>pr_companyId := u_companyId user\<rparr>;
                        (product, st') = createProduct env st productData
                    in (Success 201 product, st'))))"

text \<open>\<open>DELETE /api/products/:id\<close>: \<open>authMiddleware\<close>, \<open>requirePermission\<close>.\<close>

definition delete_products :: "Env \<Rightarrow> Store \<Rightarrow> Request \<Rightarrow> unit response \<times> Store" where
  "delete_products env st req =
     (case authMiddleware env st req of
        Inl (c, m) \<Rightarrow> (Failure c m, st)
      | Inr user \<Rightarrow>
          (case requirePermission ''products'' canDelete user of
             Some (c, m) \<Rightarrow> (Failure c m, st)
           | None \<Rightarrow>
               (case map_of (params req) ''id'' of
                  None \<Rightarrow> (Failure 404 ''Product not found'', st)
                | Some i \<Rightarrow>
                    let (deleted, st') = deleteProduct st i
                    in if \<not> deleted then (Failure 404 ''Product not found'', st)
                       else (Success 204 (), st'))))"

text \<open>\<open>POST /api/customers\<close>.\<close>

definition post_customers :: "Env \<Rightarrow> Store \<Rightarrow> Request \<Rightarrow> Customer response \<times> Store" where
  "post_customers env st req =
     (case authMiddleware env st req of
        Inl (c, m) \<Rightarrow> (Failure c m, st)
      | Inr user \<Rightarrow>
          (case requirePermission ''customers'' canCreate user of
             Some (c, m) \<Rightarrow> (Failure c m, st)
           | None \<Rightarrow>
               (case insertCustomerSchema_parse env (body req) of
                  None \<Rightarrow> (Failure 400 ''Invalid customer data'', st)
                | Some parsed \<Rightarrow>
                    let customerData = parsed\<lparr>cu_companyId := u_companyId user\<rparr>;
                        (customer, st') = createCustomer env st customerData
                    in (Success 201 customer, st'))))"

text \<open>
  \<open>POST /api/invoices\<close>. \<open>const { items, ...invoiceData } = req.body\<close> splits the body;
  a body that is no object has neither part and ends in the \<open>catch\<close> branch.
\<close>

definition without_items :: "json \<Rightarrow> json" where
  "without_items b = (case b of JObj kvs \<Rightarrow> JObj (filter (\<lambda>kv. fst kv \<noteq> ''items'') kvs) | _ \<Rightarrow> JNull)"

definition post_invoices :: "Env \<Rightarrow> Store \<Rightarrow> Request \<Rightarrow> Invoice response \<times> Store" where
  "post_invoices env st req =
     (case authMiddleware env st req of
        Inl (c, m) \<Rightarrow> (Failure c m, st)
      | Inr user \<Rightarrow>
          (case requirePermission ''invoices'' canCreate user of
             Some (c, m) \<Rightarrow> (Failure c m, st)
           | None \<Rightarrow>
               let items = jget (body req) ''items'';
                   invoiceData = without_items (body req)
               in (case insertInvoiceSchema_parse invoiceData of
                     None \<Rightarrow> (Failure 400 ''Invalid invoice data'', st)
                   | Some parsed \<Rightarrow>
                       let validatedInvoice = parsed\<lparr>inv_companyId := u_companyId user\<rparr>
                       in (case z_array insertInvoiceItemSchema_parse items of
                             None \<Rightarrow> (Failure 400 ''Invalid invoice data'', st)
                           | Some validatedItems \<Rightarrow>
                               let (invoice, st') = createInvoice env st validatedInvoice validatedItems
                               in (Success 201 invoice, st')))))"

section \<open>JavaScript numbers in the browser\<close>

text \<open>
  A JavaScript number is an IEEE 754 double: a finite value, an infinity (\<open>True\<close> for
  the negative one) or \<open>NaN\<close>. A finite double is kept as the rational it denotes. The
  sign of zero is not kept, and a zero divisor counts as \<open>+0\<close>: the report divides only
  by a sum that is greater than zero, and it prints both zeros alike.
\<close>

datatype jsnum = Finite rat | Infinity bool | NaN

text \<open>\<open>pow2 k\<close> is \<open>2\<close> to the power \<open>k\<close>, for any integer \<open>k\<close>.\<close>

definition pow2 :: "int \<Rightarrow> rat" where
  "pow2 k = 2 powi k"

text \<open>
  The exponent of the binade that holds a magnitude: the least \<open>e\<close> from \<open>e0\<close> on with
  \<open>a < 2^(e+1)\<close>, and 1024 when there is none below. From \<open>e0 = -1022\<close> this is the
  exponent of a normal double, and \<open>-1022\<close> for every subnormal magnitude.
\<close>

function binade :: "int \<Rightarrow> rat \<Rightarrow> int" where
  "binade e a = (if 1024 \<le> e \<or> a < pow2 (e + 1) then e else binade (e + 1) a)"
  by pat_completeness auto
termination
  by (relation "measure (\<lambda>(e, a). nat (1024 - e))") auto

declare binade.simps [simp del]

text \<open>Rounding to the nearest integer, a tie to the even one.\<close>

definition round_even :: "rat \<Rightarrow> int" where
  "round_even q =
     (let f = \<lfloor>q\<rfloor>; r = q - of_int f
      in if r < 1 / 2 then f
         else if 1 / 2 < r then f + 1
         else if even f then f else f + 1)"

text \<open>
  The double nearest to a rational, ties to the even significand: the value is rounded
  to a multiple of the binade's unit in the last place, \<open>2^(e-52)\<close>, and a result of
  magnitude \<open>2^1024\<close> or more is an infinity. This is also what \<open>JSON.parse\<close> makes of a
  numeric literal.
\<close>

definition round_double :: "rat \<Rightarrow> jsnum" where
  "round_double x =
     (let e = binade (- 1022) \<bar>x\<bar>;
          ulp = pow2 (e - 52);
          y = of_int (round_even (x / ulp)) * ulp
      in if pow2 1024 \<le> \<bar>y\<bar> then Infinity (x < 0) else Finite y)"

text \<open>The operators \<open>+\<close>, \<open>/\<close> and \<open>*\<close> and the comparison \<open>x > 0\<close> on numbers.\<close>

fun js_add :: "jsnum \<Rightarrow> jsnum \<Rightarrow> jsnum" where
  "js_add (Finite a) (Finite b) = round_double (a + b)"
| "js_add (Finite a) (Infinity t) = Infinity t"
| "js_add (Infinity s) (Finite b) = Infinity s"
| "js_add (Infinity s) (Infinity t) = (if s = t then Infinity s else NaN)"
| "js_add NaN b = NaN"
| "js_add a NaN = NaN"

fun js_div :: "jsnum \<Rightarrow> jsnum \<Rightarrow> jsnum" where
  "js_div (Finite a) (Finite b) =
     (if b = 0 then (if a = 0 then NaN else Infinity (a < 0)) else round_double (a / b))"
| "js_div (Finite a) (Infinity t) = Finite 0"
| "js_div (Infinity s) (Finite b) = Infinity (s \<noteq> (b < 0))"
| "js_div (Infinity s) (Infinity t) = NaN"
| "js_div NaN b = NaN"
| "js_div a NaN = NaN"

fun js_mul :: "jsnum \<Rightarrow> jsnum \<Rightarrow> jsnum" where
  "js_mul (Finite a) (Finite b) = round_double (a * b)"
| "js_mul (Finite a) (Infinity t) = (if a = 0 then NaN else Infinity (t \<noteq> (a < 0)))"
| "js_mul (Infinity s) (Finite b) = (if b = 0 then NaN else Infinity (s \<noteq> (b < 0)))"
| "js_mul (Infinity s) (Infinity t) = Infinity (s \<noteq> t)"
| "js_mul NaN b = NaN"
| "js_mul a NaN = NaN"

fun js_gt0 :: "jsnum \<Rightarrow> bool" where
  "js_gt0 (Finite a) = (0 < a)"
| "js_gt0 (Infinity s) = (\<not> s)"
| "js_gt0 NaN = False"


section \<open>The sales report (\<open>Reports\<close> page, \<open>client/src/pages/customers.tsx\<close>)\<close>

text \<open>
  The page groups the filtered invoices by customer name in an object and renders one
  table row per entry. The object is an association list in insertion order. Query data
  that has not arrived is \<open>None\<close>. Customer names that collide with a property of
  \<open>Object.prototype\<close> are not modelled. An invoice's \<open>total\<close> is the double that
  \<open>JSON.parse\<close> made of the literal in the server's answer.
\<close>

record SalesRow =
  sr_customerName :: string
  sr_invoiceCount :: nat
  sr_totalRevenue :: jsnum
  sr_paidRevenue :: jsnum

definition getCustomerName :: "Customer list option \<Rightarrow> string \<Rightarrow> string" where
  "getCustomerName customerList customerId =
     (case customerList of
        None \<Rightarrow> ''Unknown Customer''
      | Some cs \<Rightarrow>
          (case find (\<lambda>c. cu_id c = customerId) cs of
             None \<Rightarrow> ''Unknown Customer''
           | Some c \<Rightarrow> if cu_name c \<noteq> [] then cu_name c else ''Unknown Customer''))"

fun status_name :: "invoice_status \<Rightarrow> string" where
  "status_name pending = ''pending''"
| "status_name paid = ''paid''"
| "status_name overdue = ''overdue''"
| "status_name cancelled = ''cancelled''"

definition filteredInvoices :: "string \<Rightarrow> string \<Rightarrow> Invoice list option \<Rightarrow> Invoice list option" where
  "filteredInvoices customerFilter statusFilter invoiceList =
     map_option (filter (\<lambda>invoice.
        let matchesCustomer = (customerFilter = ''all'' \<or> inv_customerId invoice = customerFilter);
            matchesStatus = (statusFilter = ''all'' \<or> status_name (inv_status invoice) = statusFilter)
        in matchesCustomer \<and> matchesStatus)) invoiceList"

text \<open>\<open>invoice.total\<close> as the browser holds it.\<close>

definition total_of :: "Invoice \<Rightarrow> jsnum" where
  "total_of invoice = round_double (inv_total invoice)"

text \<open>The body of the \<open>reduce\<close> callback after the entry for the customer exists.\<close>

definition add_invoice :: "SalesRow \<Rightarrow> Invoice \<Rightarrow> SalesRow" where
  "add_invoice row invoice =
     (let row1 = row\<lparr>sr_invoiceCount := sr_invoiceCount row + 1,
                     sr_totalRevenue := js_add (sr_totalRevenue row) (total_of invoice)\<rparr>
      in if inv_status invoice = paid
         then row1\<lparr>sr_paidRevenue := js_add (sr_paidRevenue row1) (total_of invoice)\<rparr>
         else row1)"

definition group_invoice :: "Customer list option \<Rightarrow> (string \<times> SalesRow) list \<Rightarrow> Invoice \<Rightarrow> (string \<times> SalesRow) list" where
  "group_invoice customerList acc invoice =
     (let customerName = getCustomerName customerList (inv_customerId invoice);
          acc1 = (if map_of acc customerName = None
                  then acc @ [(customerName,
                               \<lparr>sr_customerName = customerName, sr_invoiceCount = 0,
                                sr_totalRevenue = Finite 0, sr_paidRevenue = Finite 0\<rparr>)]
                  else acc)
      in map (\<lambda>(k, row). if k = customerName then (k, add_invoice row invoice) else (k, row)) acc1)"

definition salesByCustomer :: "Customer list option \<Rightarrow> Invoice list option \<Rightarrow> (string \<times> SalesRow) list" where
  "salesByCustomer customerList filtered =
     (case filtered of None \<Rightarrow> [] | Some is \<Rightarrow> foldl (group_invoice customerList) [] is)"

definition salesReportData :: "Customer list option \<Rightarrow> Invoice list option \<Rightarrow> SalesRow list" where
  "salesReportData customerList filtered = map snd (salesByCustomer customerList filtered)"

text \<open>
  The text of the rate cell. For a finite number of magnitude below \<open>10^21\<close>,
  \<open>toFixed(1)\<close> gives a sign and \<open>n\<close> tenths, \<open>n\<close> being the integer nearest to ten times
  the magnitude, the larger one on a tie: \<open>Decimal1 neg n\<close>. From \<open>10^21\<close> on it gives
  the number's ordinary string, \<open>NumberString\<close>. For an infinity and for \<open>NaN\<close> it gives
  their names. \<open>Zero\<close> is the number \<open>0\<close> of the else branch.
\<close>

datatype cell_text = Decimal1 bool nat | NumberString rat | Zero | InfinityText bool | NaNText

fun toFixed1 :: "jsnum \<Rightarrow> cell_text" where
  "toFixed1 (Finite x) =
     (if 10 ^ 21 \<le> \<bar>x\<bar> then NumberString x
      else if x < 0 then Decimal1 True (nat \<lfloor>(- x) * 10 + 1 / 2\<rfloor>)
      else Decimal1 False (nat \<lfloor>x * 10 + 1 / 2\<rfloor>))"
| "toFixed1 (Infinity neg) = InfinityText neg"
| "toFixed1 NaN = NaNText"

text \<open>
  \<open>item.totalRevenue > 0 ? ((item.paidRevenue / item.totalRevenue) * 100).toFixed(1) : 0\<close>.
\<close>

definition collectionRate :: "SalesRow \<Rightarrow> cell_text" where
  "collectionRate item =
     (if js_gt0 (sr_totalRevenue item)
      then toFixed1 (js_mul (js_div (sr_paidRevenue item) (sr_totalRevenue item)) (Finite 100))
      else Zero)"

section \<open>A small installation used for concrete runs\<close>

text \<open>
  Two tenants \<open>A\<close> and \<open>B\<close>; \<open>u1\<close> is Company Admin of \<open>A\<close>, \<open>u2\<close> Company Admin of
  \<open>B\<close>, \<open>u3\<close> a deactivated plain user of \<open>A\<close>. Every password is \<open>pw\<close>. The token
  \<open>tok:u1\<close> verifies to the claims issued to \<open>u1\<close>, \<open>tok:u3\<close> to those issued to
  \<open>u3\<close>. The e-mail check accepts the six addresses that occur below, each of which
  matches zod's e-mail pattern, and no other string. Role \<open>user\<close> has two permission rows
  whose flags tell the four actions apart.
\<close>

definition demo_env :: Env where
  "demo_env =
     \<lparr>isEmail = (\<lambda>s. s \<in> set [''ann@a.com'', ''bob@b.com'', ''cy@a.com'', ''nobody@a.com'',
                                 ''dee@d.com'', ''eve@a.com'']),
      bcrypt_hash = (\<lambda>p. ''h:'' @ p),
      bcrypt_compare = (\<lambda>p h. h = ''h:'' @ p),
      jwt_sign = (\<lambda>p. ''tok:'' @ jp_userId p),
      jwt_verify = (\<lambda>t. if t = ''tok:u1''
                          then Some \<lparr>jp_userId = ''u1'', jp_companyId = ''A'',
                                     jp_roleId = ''admin'', jp_email = ''ann@a.com''\<rparr>
                          else if t = ''tok:u3''
                          then Some \<lparr>jp_userId = ''u3'', jp_companyId = ''A'',
                                     jp_roleId = ''user'', jp_email = ''cy@a.com''\<rparr>
                          else None),
      uuid = (\<lambda>k. if k = 0 then ''n0'' else ''n1''),
      now = (\<lambda>k. ''t'')\<rparr>"

definition mkCompany :: "string \<Rightarrow> Company" where
  "mkCompany i =
     \<lparr>c_name = i, c_slug = i, c_logoUrl = None, c_address = None, c_phone = None,
      c_email = None, c_website = None, c_isActive = True,
      c_id = i, c_createdAt = ''t'', c_updatedAt = ''t''\<rparr>"

definition mkUser :: "string \<Rightarrow> string \<Rightarrow> string \<Rightarrow> string \<Rightarrow> bool \<Rightarrow> User" where
  "mkUser i c r e a =
     \<lparr>u_companyId = c, u_roleId = r, u_email = e, u_password = ''h:pw'', u_name = i,
      u_isActive = a, u_id = i, u_createdAt = ''t'', u_updatedAt = ''t''\<rparr>"

definition mkPerm :: "string \<Rightarrow> string \<Rightarrow> bool \<Rightarrow> bool \<Rightarrow> bool \<Rightarrow> bool \<Rightarrow> Permission" where
  "mkPerm r m c rd u d =
     \<lparr>perm_id = r @ m, perm_roleId = r, perm_module = m, perm_canCreate = c,
      perm_canRead = rd, perm_canUpdate = u, perm_canDelete = d\<rparr>"

definition demo_store :: Store where
  "demo_store =
     \<lparr>companies = [mkCompany ''A'', mkCompany ''B''],
      users = [mkUser ''u1'' ''A'' ''admin'' ''ann@a.com'' True,
               mkUser ''u2'' ''B'' ''admin'' ''bob@b.com'' True,
               mkUser ''u3'' ''A'' ''user'' ''cy@a.com'' False],
      roles = [\<lparr>r_id = ''admin'', r_name = ''Company Admin'', r_description = None\<rparr>,
               \<lparr>r_id = ''user'', r_name = ''User'', r_description = None\<rparr>],
      permissions = [mkPerm ''admin'' ''products'' True True True True,
                     mkPerm ''admin'' ''invoices'' True True True True,
                     mkPerm ''admin'' ''customers'' True True True True,
                     mkPerm ''admin'' ''users'' True True True True,
                     mkPerm ''user'' ''invoices'' True True False False,
                     mkPerm ''user'' ''customers'' True False True False],
      products = [], customers = [], invoices = [], invoice_items = []\<rparr>"

text \<open>A request with a bearer token, route parameter \<open>id\<close> and a body.\<close>

definition mkRequest :: "string \<Rightarrow> string \<Rightarrow> json \<Rightarrow> Request" where
  "mkRequest token i b =
     \<lparr>authorization = Some (''Bearer '' @ token), params = [(''id'', i)], query = [], body = b\<rparr>"

definition login_request :: "string \<Rightarrow> string \<Rightarrow> Request" where
  "login_request e p =
     \<lparr>authorization = None, params = [], query = [],
      body = JObj [(''email'', JStr e), (''password'', JStr p)]\<rparr>"

text \<open>The installation after \<open>u1\<close> was demoted from \<open>admin\<close> to \<open>user\<close>.\<close>

definition demoted_store :: Store where
  "demoted_store =
     demo_store\<lparr>users := [mkUser ''u1'' ''A'' ''user'' ''ann@a.com'' True,
                           mkUser ''u2'' ''B'' ''admin'' ''bob@b.com'' True,
                           mkUser ''u3'' ''A'' ''user'' ''cy@a.com'' False]\<rparr>"

text \<open>The installation after company \<open>A\<close> was deleted: its users stay behind.\<close>

definition orphaned_store :: Store where
  "orphaned_store = demo_store\<lparr>companies := [mkCompany ''B'']\<rparr>"

text \<open>
  The installation with a second account on \<open>u3\<close>'s address: \<open>POST /api/users\<close> does not
  look for an existing e-mail. The new row comes first in the file.
\<close>

definition duplicate_store :: Store where
  "duplicate_store =
     demo_store\<lparr>users := [mkUser ''u4'' ''A'' ''admin'' ''cy@a.com'' True,
                           mkUser ''u1'' ''A'' ''admin'' ''ann@a.com'' True,
                           mkUser ''u2'' ''B'' ''admin'' ''bob@b.com'' True,
                           mkUser ''u3'' ''A'' ''user'' ''cy@a.com'' False]\<rparr>"

text \<open>Tenant \<open>B\<close> owns one product.\<close>

definition product_of_B :: Product where
  "product_of_B =
     \<lparr>pr_companyId = ''B'', pr_name = ''widget'', pr_description = None, pr_price = 5,
      pr_unit = None, pr_category = None, pr_taxRate = 0, pr_isActive = True,
      pr_id = ''p1'', pr_createdAt = ''t'', pr_updatedAt = ''t''\<rparr>"

text \<open>Request bodies for the create routes.\<close>

definition product_body :: "string \<Rightarrow> json" where
  "product_body c =
     JObj [(''companyId'', JStr c), (''name'', JStr ''gadget''), (''price'', JNum 3),
           (''isActive'', JBool True)]"

definition customer_body :: "string \<Rightarrow> json" where
  "customer_body c =
     JObj [(''companyId'', JStr c), (''name'', JStr ''Dee''), (''email'', JStr ''dee@d.com''),
           (''isActive'', JBool True)]"

definition user_body :: "string \<Rightarrow> json" where
  "user_body c =
     JObj [(''companyId'', JStr c), (''roleId'', JStr ''user''), (''email'', JStr ''eve@a.com''),
           (''password'', JStr ''pw''), (''name'', JStr ''Eve''), (''isActive'', JBool True)]"

definition item_json :: "number \<Rightarrow> number \<Rightarrow> number \<Rightarrow> json" where
  "item_json q p t =
     JObj [(''invoiceId'', JStr []), (''productId'', JStr ''p1''), (''description'', JStr ''widget''),
           (''quantity'', JNum q), (''unitPrice'', JNum p), (''total'', JNum t)]"

definition invoice_body :: "string \<Rightarrow> number \<Rightarrow> number \<Rightarrow> number \<Rightarrow> json list \<Rightarrow> json" where
  "invoice_body c sub tx tot its =
     JObj [(''companyId'', JStr c), (''customerId'', JStr ''c1''), (''invoiceNumber'', JStr ''INV-1''),
           (''date'', JStr ''2024-01-01''), (''dueDate'', JStr ''2024-01-31''),
           (''subtotal'', JNum sub), (''tax'', JNum tx), (''total'', JNum tot),
           (''status'', JStr ''pending''), (''items'', JArr its)]"

text \<open>The product that \<open>u1\<close> creates from \<open>product_body\<close>.\<close>

definition new_product :: Product where
  "new_product =
     \<lparr>pr_companyId = ''A'', pr_name = ''gadget'', pr_description = None, pr_price = 3,
      pr_unit = None, pr_category = None, pr_taxRate = 0, pr_isActive = True,
      pr_id = ''n0'', pr_createdAt = ''t'', pr_updatedAt = ''t''\<rparr>"

text \<open>Input of the report: one known customer, three invoices.\<close>

definition mkInvoice :: "string \<Rightarrow> string \<Rightarrow> number \<Rightarrow> invoice_status \<Rightarrow> Invoice" where
  "mkInvoice i c tot s =
     \<lparr>inv_companyId = ''A'', inv_customerId = c, inv_invoiceNumber = i, inv_date = ''d'',
      inv_dueDate = ''d'', inv_subtotal = tot, inv_tax = 0, inv_total = tot, inv_status = s,
      inv_notes = None, inv_id = i, inv_createdAt = ''t'', inv_updatedAt = ''t''\<rparr>"

definition report_customers :: "Customer list" where
  "report_customers =
     [\<lparr>cu_companyId = ''A'', cu_name = ''Dee'', cu_email = ''dee@d.com'', cu_phone = None,
       cu_address = None, cu_taxId = None, cu_isActive = True,
       cu_id = ''c1'', cu_createdAt = ''t'', cu_updatedAt = ''t''\<rparr>]"

definition report_invoices :: "Invoice list" where
  "report_invoices =
     [mkInvoice ''i1'' ''c1'' 23 paid, mkInvoice ''i2'' ''c9'' 0 pending,
      mkInvoice ''i3'' ''c1'' 57 pending]"

text \<open>
  The literal \<open>8.98846567431158e+307\<close>, which is how \<open>JSON.stringify\<close> writes the double
  \<open>2^1023\<close>, that double, and two reports with totals of that size.
\<close>

definition huge_total :: number where
  "huge_total = 898846567431158 * 10 ^ 293"

definition two_1023 :: rat where
  "two_1023 = 2 ^ 1023"

definition overflow_invoices :: "Invoice list" where
  "overflow_invoices =
     [mkInvoice ''i1'' ''c1'' huge_total paid, mkInvoice ''i2'' ''c1'' huge_total paid]"

definition huge_rate_invoices :: "Invoice list" where
  "huge_rate_invoices =
     [mkInvoice ''i1'' ''c1'' huge_total paid, mkInvoice ''i2'' ''c1'' (- huge_total) pending,
      mkInvoice ''i3'' ''c1'' 1 pending]"

section \<open>Verified properties\<close>

lemmas demo_defs = demo_env_def demo_store_def mkCompany_def mkUser_def mkPerm_def
  mkRequest_def login_request_def product_body_def customer_body_def
  user_body_def item_json_def invoice_body_def demoted_store_def orphaned_store_def duplicate_store_def
  product_of_B_def
lemmas store_defs = getUserWithRole_def getUser_def getUsers_def getUserByEmail_def getUserByEmailWithRole_def
  InsertUser.defs User.defs UserWithRole.defs


lemmas auth_defs = authMiddleware_def extractTokenFromHeader_def verifyToken_def
lemmas parse_defs = loginSchema_parse_def z_email_def z_string_min1_def z_string_def z_number_def
  z_boolean_def z_string_optional_def z_number_default0_def z_status_def z_array_def
lemmas record_defs = InsertProduct.defs Product.defs
  InsertCustomer.defs Customer.defs InsertInvoice.defs Invoice.defs InsertInvoiceItem.defs InvoiceItem.defs
lemmas route_defs = post_users_def delete_users_def post_products_def delete_products_def
  post_customers_def post_invoices_def requirePermission_def requireCompanyScope_def js_or_def
  createUser_def deleteUser_def createProduct_def deleteProduct_def createCustomer_def createInvoice_def
  without_items_def hashPassword_def
  insertUserSchema_parse_def insertProductSchema_parse_def insertCustomerSchema_parse_def
  insertInvoiceSchema_parse_def insertInvoiceItemSchema_parse_def

subsection \<open>Store lookups\<close>

lemma find_filter: "find P (filter Q xs) = find (\<lambda>x. Q x \<and> P x) xs"
  by (induction xs) auto

lemma find_first_of_filter: "find P xs = (case filter P xs of [] \<Rightarrow> None | x # rest \<Rightarrow> Some x)"
  by (induction xs) auto

lemma find_None_image: "k \<notin> f ` set xs \<Longrightarrow> find (\<lambda>x. f x = k) xs = None"
  by (auto simp: find_None_iff)

lemma find_Some_image: "k \<in> f ` set xs \<Longrightarrow> \<exists>x. find (\<lambda>x. f x = k) xs = Some x"
  by (cases "find (\<lambda>x. f x = k) xs") (auto simp: find_None_iff)

lemma getUserWithRole_permissions:
  "getUserWithRole st uid = Some user \<Longrightarrow>
     u_permissions user = filter (\<lambda>p. perm_roleId p = u_roleId user) (permissions st)"
  by (auto simp: getUserWithRole_def Let_def InsertUser.defs User.defs UserWithRole.defs split: option.splits)

text \<open>What \<open>getUserWithRole\<close> returns, in terms of the three files it reads.\<close>

lemma getUserWithRole_unfold:
  "getUserWithRole st uid =
     (case find (\<lambda>u. u_id u = uid) (users st) of
        None \<Rightarrow> None
      | Some stored \<Rightarrow>
          (case find (\<lambda>r. r_id r = u_roleId stored) (roles st) of
             None \<Rightarrow> None
           | Some r \<Rightarrow>
               (case find (\<lambda>c. c_id c = u_companyId stored) (companies st) of
                  None \<Rightarrow> None
                | Some c \<Rightarrow>
                    Some (User.extend stored
                           (UserWithRole.fields r c
                              (filter (\<lambda>p. perm_roleId p = u_roleId stored) (permissions st)))))))"
  by (simp add: getUserWithRole_def getUser_def getUsers_def Let_def split: option.splits)

lemma getUserWithRole_stored:
  assumes "getUserWithRole st uid = Some user"
  shows "\<exists>stored \<in> set (users st). u_id stored = uid
            \<and> u_id user = uid
            \<and> u_roleId user = u_roleId stored
            \<and> u_companyId user = u_companyId stored
            \<and> u_isActive user = u_isActive stored
            \<and> r_id (u_role user) = u_roleId stored
            \<and> u_role user \<in> set (roles st)"
proof -
  from assms obtain stored r c where
    f: "find (\<lambda>u. u_id u = uid) (users st) = Some stored"
    and fr: "find (\<lambda>r. r_id r = u_roleId stored) (roles st) = Some r"
    and u: "user = User.extend stored (UserWithRole.fields r c (filter (\<lambda>p. perm_roleId p = u_roleId stored) (permissions st)))"
    by (auto simp: getUserWithRole_unfold split: option.splits)
  from f have "stored \<in> set (users st)" "u_id stored = uid"
    by (auto simp: find_Some_iff)
  moreover from fr have "r \<in> set (roles st)" "r_id r = u_roleId stored"
    by (auto simp: find_Some_iff)
  ultimately show ?thesis
    using u by (auto simp: InsertUser.defs User.defs UserWithRole.defs)
qed

subsection \<open>Permission checks\<close>

lemma requirePermission_rows:
  assumes "getUserWithRole st uid = Some user"
  shows "requirePermission m act user =
           (case permission_rows st (u_roleId user) m of
              [] \<Rightarrow> Some (403, ''Insufficient permissions'')
            | p # rest \<Rightarrow>
                if (case act of canCreate \<Rightarrow> perm_canCreate p | canRead \<Rightarrow> perm_canRead p
                              | canUpdate \<Rightarrow> perm_canUpdate p | canDelete \<Rightarrow> perm_canDelete p)
                then None
                else Some (403, ''Insufficient permissions''))"
proof -
  have perms: "u_permissions user = filter (\<lambda>p. perm_roleId p = u_roleId user) (permissions st)"
    using assms by (rule getUserWithRole_permissions)
  have flag: "perm_flag p act =
          (case act of canCreate \<Rightarrow> perm_canCreate p | canRead \<Rightarrow> perm_canRead p
                     | canUpdate \<Rightarrow> perm_canUpdate p | canDelete \<Rightarrow> perm_canDelete p)" for p
    by (cases act) simp_all
  show ?thesis
    by (simp add: requirePermission_def perms find_filter permission_rows_def flag
                  find_first_of_filter [of "\<lambda>p. perm_roleId p = u_roleId user \<and> perm_module p = m"]
             split: list.splits)
qed

lemma authMiddleware_Inr:
  assumes "authMiddleware env st req = Inr user"
  shows "\<exists>uid. getUserWithRole st uid = Some user"
  using assms by (auto simp: authMiddleware_def split: option.splits if_splits)

text \<open>
  C6, as amended. Authorisation is default-deny on the role of the user as stored at the
  time of the request. For the user that \<open>authMiddleware\<close> hands on, whose \<open>roleId\<close> is
  that of a row of \<open>users.json\<close>, \<open>requirePermission\<close> answers 403 when
  \<open>permissions.json\<close> has no row for that role and the module; otherwise the first such
  row decides: the request passes exactly when the row's \<open>canCreate\<close>, \<open>canRead\<close>,
  \<open>canUpdate\<close> or \<open>canDelete\<close> field, the one named by the action, is true. The
  client's \<open>hasPermission\<close> agrees. In particular a role without a row for \<open>products\<close>
  fails every \<open>products\<close> action, and the two \<open>products\<close> routes modelled here answer
  403 and leave the store as it is. The \<open>roleId\<close> inside the token is not used.
\<close>

theorem requirePermission_default_deny:
  assumes "authMiddleware env st req = Inr user"
  shows "(\<exists>stored \<in> set (users st). u_id stored = u_id user \<and> u_roleId stored = u_roleId user)
       \<and> requirePermission m a user =
           (case permission_rows st (u_roleId user) m of
              [] \<Rightarrow> Some (403, ''Insufficient permissions'')
            | p # rest \<Rightarrow>
                if (case a of canCreate \<Rightarrow> perm_canCreate p | canRead \<Rightarrow> perm_canRead p
                            | canUpdate \<Rightarrow> perm_canUpdate p | canDelete \<Rightarrow> perm_canDelete p)
                then None
                else Some (403, ''Insufficient permissions''))
       \<and> hasPermission (Some user) m a = (requirePermission m a user = None)
       \<and> (permission_rows st (u_roleId user) ''products'' = []
            \<longrightarrow> (\<forall>act. requirePermission ''products'' act user = Some (403, ''Insufficient permissions'')
                       \<and> \<not> hasPermission (Some user) ''products'' act)
               \<and> post_products env st req = (Failure 403 ''Insufficient permissions'', st)
               \<and> delete_products env st req = (Failure 403 ''Insufficient permissions'', st))"
proof -
  obtain uid where g: "getUserWithRole st uid = Some user"
    using authMiddleware_Inr [OF assms] by blast
  note eq = requirePermission_rows [OF g]
  have has: "hasPermission (Some user) m act = (requirePermission m act user = None)" for m act
    by (simp add: hasPermission_def requirePermission_def split: option.splits)
  have st: "\<exists>stored \<in> set (users st). u_id stored = u_id user \<and> u_roleId stored = u_roleId user"
    using getUserWithRole_stored [OF g] by auto
  have deny: "requirePermission ''products'' act user = Some (403, ''Insufficient permissions'')"
    if "permission_rows st (u_roleId user) ''products'' = []" for act
    using that by (simp add: eq)
  have routes: "post_products env st req = (Failure 403 ''Insufficient permissions'', st)"
    "delete_products env st req = (Failure 403 ''Insufficient permissions'', st)"
    if "permission_rows st (u_roleId user) ''products'' = []"
    using deny [OF that] assms by (simp_all add: post_products_def delete_products_def)
  show ?thesis
    using eq has st deny routes by simp
qed

text \<open>
  The deactivated user \<open>u3\<close> has role \<open>user\<close>: create and read on \<open>invoices\<close>, create
  and update on \<open>customers\<close>, no row for \<open>products\<close>.
\<close>

theorem requirePermission_default_deny_witness:
  "map_sum id (\<lambda>user. map (\<lambda>act. requirePermission ''invoices'' act user)
                         [canCreate, canRead, canUpdate, canDelete])
     (authMiddleware demo_env demo_store (mkRequest ''tok:u3'' ''p1'' (product_body ''A'')))
   = Inr [None, None, Some (403, ''Insufficient permissions''), Some (403, ''Insufficient permissions'')]
   \<and> map_sum id (\<lambda>user. map (\<lambda>act. requirePermission ''customers'' act user)
                         [canCreate, canRead, canUpdate, canDelete])
     (authMiddleware demo_env demo_store (mkRequest ''tok:u3'' ''p1'' (product_body ''A'')))
   = Inr [None, Some (403, ''Insufficient permissions''), None, Some (403, ''Insufficient permissions'')]
   \<and> map_sum id (\<lambda>user. map (\<lambda>act. requirePermission ''products'' act user)
                         [canCreate, canRead, canUpdate, canDelete])
     (authMiddleware demo_env demo_store (mkRequest ''tok:u3'' ''p1'' (product_body ''A'')))
   = Inr [Some (403, ''Insufficient permissions''), Some (403, ''Insufficient permissions''),
          Some (403, ''Insufficient permissions''), Some (403, ''Insufficient permissions'')]
   \<and> post_products demo_env demo_store (mkRequest ''tok:u3'' ''p1'' (product_body ''A''))
   = (Failure 403 ''Insufficient permissions'', demo_store)
   \<and> delete_products demo_env demo_store (mkRequest ''tok:u3'' ''p1'' (product_body ''A''))
   = (Failure 403 ''Insufficient permissions'', demo_store)"
proof -
  obtain user where u: "authMiddleware demo_env demo_store (mkRequest ''tok:u3'' ''p1'' (product_body ''A''))
                          = Inr user"
    by (simp add: demo_defs store_defs auth_defs)
  have r: "u_roleId user = ''user''"
    using u by (auto simp: demo_defs store_defs auth_defs)
  have rows: "permission_rows demo_store ''user'' ''invoices'' = [mkPerm ''user'' ''invoices'' True True False False]"
    "permission_rows demo_store ''user'' ''customers'' = [mkPerm ''user'' ''customers'' True False True False]"
    "permission_rows demo_store ''user'' ''products'' = []"
    by (simp_all add: permission_rows_def demo_store_def mkPerm_def)
  have t: "requirePermission m a user =
           (case permission_rows demo_store ''user'' m of
              [] \<Rightarrow> Some (403, ''Insufficient permissions'')
            | p # rest \<Rightarrow>
                if (case a of canCreate \<Rightarrow> perm_canCreate p | canRead \<Rightarrow> perm_canRead p
                            | canUpdate \<Rightarrow> perm_canUpdate p | canDelete \<Rightarrow> perm_canDelete p)
                then None
                else Some (403, ''Insufficient permissions''))" for m a
    using requirePermission_default_deny [OF u, of m a] by (simp add: r)
  have routes: "post_products demo_env demo_store (mkRequest ''tok:u3'' ''p1'' (product_body ''A''))
                  = (Failure 403 ''Insufficient permissions'', demo_store)"
    "delete_products demo_env demo_store (mkRequest ''tok:u3'' ''p1'' (product_body ''A''))
                  = (Failure 403 ''Insufficient permissions'', demo_store)"
    using requirePermission_default_deny [OF u, of "''products''" canRead] rows(3)
    by (simp_all add: r)
  show ?thesis
    by (simp add: u t rows routes mkPerm_def)
qed

text \<open>
  C6 as stated fails: the claims in \<open>u1\<close>'s token carry role \<open>admin\<close>, the row for
  \<open>admin\<close> and \<open>products\<close> has \<open>canDelete\<close> set, and after the demotion the delete
  request is answered 403.
\<close>

theorem token_role_not_used_counterexample:
  "map_option jp_roleId (verifyToken demo_env ''tok:u1'') = Some ''admin''
   \<and> map perm_canDelete (permission_rows demoted_store ''admin'' ''products'') = [True]
   \<and> fst (delete_products demo_env (demoted_store\<lparr>products := [product_of_B]\<rparr>)
            (mkRequest ''tok:u1'' ''p1'' JNull)) = Failure 403 ''Insufficient permissions''"
  by (simp add: demo_defs store_defs permission_rows_def authMiddleware_def extractTokenFromHeader_def
        verifyToken_def delete_products_def requirePermission_def deleteProduct_def)

subsection \<open>Login\<close>

lemma getUserByEmail_None: "e \<notin> u_email ` set (users st) \<Longrightarrow> getUserByEmail st e = None"
  by (auto simp: getUserByEmail_def getUsers_def find_None_iff)

text \<open>
  C7. A login whose e-mail is not in \<open>users.json\<close> and a login whose e-mail is there but
  whose password does not match the account the lookup resolves (or whose account has no
  role or company row, so that the lookup resolves nothing) get the same answer: status
  401 with the message \<open>Invalid credentials\<close>.
\<close>

theorem login_invalid_credentials_indistinguishable:
  assumes "loginSchema_parse env (body req1) = Some (e1, p1)"
      and "e1 \<notin> u_email ` set (users st)"
      and "loginSchema_parse env (body req2) = Some (e2, p2)"
      and "e2 \<in> u_email ` set (users st)"
      and "\<forall>u. getUserByEmailWithRole st e2 = Some u \<longrightarrow> \<not> comparePassword env p2 (u_password u)"
  shows "post_auth_login env st req1 = Failure 401 ''Invalid credentials''
       \<and> post_auth_login env st req2 = Failure 401 ''Invalid credentials''
       \<and> post_auth_login env st req1 = post_auth_login env st req2"
proof -
  have "getUserByEmailWithRole st e1 = None"
    using assms(2) by (simp add: getUserByEmailWithRole_def getUserByEmail_None)
  then have a: "post_auth_login env st req1 = Failure 401 ''Invalid credentials''"
    using assms(1) by (simp add: post_auth_login_def)
  have b: "post_auth_login env st req2 = Failure 401 ''Invalid credentials''"
    using assms(3,5) by (simp add: post_auth_login_def split: option.splits)
  show ?thesis using a b by simp
qed

text \<open>An unknown address, and \<open>u1\<close>'s address with a wrong password.\<close>

theorem login_invalid_credentials_indistinguishable_witness:
  "post_auth_login demo_env demo_store (login_request ''nobody@a.com'' ''pw'')
     = Failure 401 ''Invalid credentials''
   \<and> post_auth_login demo_env demo_store (login_request ''ann@a.com'' ''wrong'')
     = Failure 401 ''Invalid credentials''"
proof -
  have 1: "loginSchema_parse demo_env (body (login_request ''nobody@a.com'' ''pw'')) = Some (''nobody@a.com'', ''pw'')"
    by (simp add: demo_defs parse_defs)
  have 2: "''nobody@a.com'' \<notin> u_email ` set (users demo_store)"
    by (simp add: demo_defs)
  have 3: "loginSchema_parse demo_env (body (login_request ''ann@a.com'' ''wrong'')) = Some (''ann@a.com'', ''wrong'')"
    by (simp add: demo_defs parse_defs)
  have 4: "''ann@a.com'' \<in> u_email ` set (users demo_store)"
    by (simp add: demo_defs)
  have 5: "\<forall>u. getUserByEmailWithRole demo_store ''ann@a.com'' = Some u \<longrightarrow> \<not> comparePassword demo_env ''wrong'' (u_password u)"
    by (auto simp: demo_defs store_defs comparePassword_def)
  show ?thesis
    using login_invalid_credentials_indistinguishable [OF 1 2 3 4 5] by simp
qed

text \<open>
  C8, as amended. Take a login whose e-mail and password pass \<open>loginSchema\<close>. Let the
  first row of \<open>users.json\<close> with that e-mail also be the first row with its own id, have
  a role row and a company row, a stored hash that matches the password, and \<open>isActive\<close>
  false. Then the answer is 401 \<open>Account is inactive\<close>, which differs from the
  \<open>Invalid credentials\<close> answer, and no token is issued.
\<close>

theorem login_inactive_account:
  assumes "loginSchema_parse env (body req) = Some (email, password)"
      and "find (\<lambda>u. u_email u = email) (users st) = Some stored"
      and "find (\<lambda>u. u_id u = u_id stored) (users st) = Some stored"
      and "u_roleId stored \<in> r_id ` set (roles st)"
      and "u_companyId stored \<in> c_id ` set (companies st)"
      and "comparePassword env password (u_password stored)"
      and "\<not> u_isActive stored"
  shows "post_auth_login env st req = Failure 401 ''Account is inactive''
       \<and> post_auth_login env st req \<noteq> Failure 401 ''Invalid credentials''
       \<and> (\<forall>c reply. post_auth_login env st req \<noteq> Success c reply)"
proof -
  obtain r where r: "find (\<lambda>r. r_id r = u_roleId stored) (roles st) = Some r"
    using find_Some_image [OF assms(4)] by blast
  obtain c where c: "find (\<lambda>c. c_id c = u_companyId stored) (companies st) = Some c"
    using find_Some_image [OF assms(5)] by blast
  have "getUserByEmailWithRole st email =
          Some (User.extend stored
                  (UserWithRole.fields r c
                     (filter (\<lambda>p. perm_roleId p = u_roleId stored) (permissions st))))"
    using assms(2,3) r c
    by (simp add: getUserByEmailWithRole_def getUserByEmail_def getUsers_def getUserWithRole_unfold)
  then show ?thesis
    using assms(1,6,7)
    by (simp add: post_auth_login_def InsertUser.defs User.defs UserWithRole.defs)
qed

text \<open>The deactivated user \<open>u3\<close> with the right password.\<close>

theorem login_inactive_account_witness:
  "post_auth_login demo_env demo_store (login_request ''cy@a.com'' ''pw'')
     = Failure 401 ''Account is inactive''"
proof -
  have 1: "loginSchema_parse demo_env (body (login_request ''cy@a.com'' ''pw'')) = Some (''cy@a.com'', ''pw'')"
    by (simp add: demo_defs parse_defs)
  have 2: "find (\<lambda>u. u_email u = ''cy@a.com'') (users demo_store)
             = Some (mkUser ''u3'' ''A'' ''user'' ''cy@a.com'' False)"
    by (simp add: demo_defs)
  have 3: "find (\<lambda>u. u_id u = u_id (mkUser ''u3'' ''A'' ''user'' ''cy@a.com'' False)) (users demo_store)
             = Some (mkUser ''u3'' ''A'' ''user'' ''cy@a.com'' False)"
    by (simp add: demo_defs)
  have 4: "u_roleId (mkUser ''u3'' ''A'' ''user'' ''cy@a.com'' False) \<in> r_id ` set (roles demo_store)"
    by (simp add: demo_defs)
  have 5: "u_companyId (mkUser ''u3'' ''A'' ''user'' ''cy@a.com'' False) \<in> c_id ` set (companies demo_store)"
    by (simp add: demo_defs)
  have 6: "comparePassword demo_env ''pw'' (u_password (mkUser ''u3'' ''A'' ''user'' ''cy@a.com'' False))"
    by (simp add: demo_defs comparePassword_def)
  have 7: "\<not> u_isActive (mkUser ''u3'' ''A'' ''user'' ''cy@a.com'' False)"
    by (simp add: demo_defs)
  show ?thesis
    using login_inactive_account [OF 1 2 3 4 5 6 7] by simp
qed

text \<open>
  C8 as stated fails in two ways. After company \<open>A\<close> is deleted, the deactivated user
  \<open>u3\<close> is still in \<open>users.json\<close>, the password is right, and the answer is
  \<open>Invalid credentials\<close>. And when an active account on the same address precedes \<open>u3\<close>
  in the file, the same login is answered 200 with a token, although \<open>u3\<close> is
  deactivated, has its role and company rows, and has that password.
\<close>

theorem login_inactive_orphan_counterexample:
  "mkUser ''u3'' ''A'' ''user'' ''cy@a.com'' False \<in> set (users orphaned_store)
   \<and> mkUser ''u3'' ''A'' ''user'' ''cy@a.com'' False \<in> set (users duplicate_store)
   \<and> u_email (mkUser ''u3'' ''A'' ''user'' ''cy@a.com'' False) = ''cy@a.com''
   \<and> comparePassword demo_env ''pw'' (u_password (mkUser ''u3'' ''A'' ''user'' ''cy@a.com'' False))
   \<and> \<not> u_isActive (mkUser ''u3'' ''A'' ''user'' ''cy@a.com'' False)
   \<and> isEmail demo_env ''cy@a.com''
   \<and> post_auth_login demo_env orphaned_store (login_request ''cy@a.com'' ''pw'')
       = Failure 401 ''Invalid credentials''
   \<and> ''user'' \<in> r_id ` set (roles duplicate_store)
   \<and> ''A'' \<in> c_id ` set (companies duplicate_store)
   \<and> status_of (post_auth_login demo_env duplicate_store (login_request ''cy@a.com'' ''pw'')) = 200"
  by (simp add: demo_defs store_defs parse_defs comparePassword_def post_auth_login_def)

subsection \<open>Session verification\<close>

text \<open>
  C5, as amended. \<open>verifyToken\<close> looks at the token only (signature and expiry, inside
  \<open>jwt.verify\<close>) and has no access to the store. \<open>authMiddleware\<close> then takes nothing but
  \<open>userId\<close> from the verified claims and reads the store. When \<open>users.json\<close> has no row
  with that id, or the first such row names a role or a company that has no row, the
  answer is 401 \<open>User not found\<close>. Otherwise \<open>req.user\<close> is that user row together with
  the first role row and the first company row it names and the permission rows of its
  role, all as the store holds them at the time of the request. Nothing depends on the
  row's \<open>isActive\<close> flag, which is copied and not tested, nor on the other claims of the
  token.
\<close>

theorem authMiddleware_loads_current_user:
  assumes "extractTokenFromHeader (authorization req) = Some token"
      and "token \<noteq> []"
      and "verifyToken env token = Some payload"
  shows "(jp_userId payload \<notin> u_id ` set (users st)
            \<longrightarrow> authMiddleware env st req = Inl (401, ''User not found''))
       \<and> (\<forall>stored. find (\<lambda>u. u_id u = jp_userId payload) (users st) = Some stored \<longrightarrow>
             (u_roleId stored \<notin> r_id ` set (roles st) \<or> u_companyId stored \<notin> c_id ` set (companies st)
                \<longrightarrow> authMiddleware env st req = Inl (401, ''User not found''))
           \<and> (\<forall>r c. find (\<lambda>r. r_id r = u_roleId stored) (roles st) = Some r
                   \<and> find (\<lambda>c. c_id c = u_companyId stored) (companies st) = Some c
                \<longrightarrow> (\<exists>user. authMiddleware env st req = Inr user
                       \<and> u_id user = u_id stored
                       \<and> u_companyId user = u_companyId stored
                       \<and> u_roleId user = u_roleId stored
                       \<and> u_email user = u_email stored
                       \<and> u_password user = u_password stored
                       \<and> u_name user = u_name stored
                       \<and> u_isActive user = u_isActive stored
                       \<and> u_createdAt user = u_createdAt stored
                       \<and> u_updatedAt user = u_updatedAt stored
                       \<and> u_role user = r
                       \<and> u_company user = c
                       \<and> u_permissions user
                           = filter (\<lambda>p. perm_roleId p = u_roleId stored) (permissions st))))"
proof -
  have eq: "authMiddleware env st req =
           (case getUserWithRole st (jp_userId payload) of
              None \<Rightarrow> Inl (401, ''User not found'')
            | Some user \<Rightarrow> Inr user)"
    using assms by (simp add: authMiddleware_def)
  have a: "authMiddleware env st req = Inl (401, ''User not found'')"
    if "jp_userId payload \<notin> u_id ` set (users st)"
    using find_None_image [OF that] by (simp add: eq getUserWithRole_unfold)
  have b: "authMiddleware env st req = Inl (401, ''User not found'')"
    if "find (\<lambda>u. u_id u = jp_userId payload) (users st) = Some stored"
      and "u_roleId stored \<notin> r_id ` set (roles st) \<or> u_companyId stored \<notin> c_id ` set (companies st)"
    for stored
    using that find_None_image [of "u_roleId stored" r_id "roles st"]
      find_None_image [of "u_companyId stored" c_id "companies st"]
    by (auto simp: eq getUserWithRole_unfold split: option.splits)
  have c: "\<exists>user. authMiddleware env st req = Inr user
                       \<and> u_id user = u_id stored
                       \<and> u_companyId user = u_companyId stored
                       \<and> u_roleId user = u_roleId stored
                       \<and> u_email user = u_email stored
                       \<and> u_password user = u_password stored
                       \<and> u_name user = u_name stored
                       \<and> u_isActive user = u_isActive stored
                       \<and> u_createdAt user = u_createdAt stored
                       \<and> u_updatedAt user = u_updatedAt stored
                       \<and> u_role user = r
                       \<and> u_company user = c
                       \<and> u_permissions user
                           = filter (\<lambda>p. perm_roleId p = u_roleId stored) (permissions st)"
    if "find (\<lambda>u. u_id u = jp_userId payload) (users st) = Some stored"
      and "find (\<lambda>r. r_id r = u_roleId stored) (roles st) = Some r"
      and "find (\<lambda>c. c_id c = u_companyId stored) (companies st) = Some c"
    for stored r c
    using that
    by (simp add: eq getUserWithRole_unfold InsertUser.defs User.defs UserWithRole.defs)
  show ?thesis
    using a b c by blast
qed

text \<open>
  With the token of the deactivated user \<open>u3\<close>: no user row, then the user row without
  its company row, then the full installation, where the request is accepted.
\<close>

theorem authMiddleware_loads_current_user_witness:
  "authMiddleware demo_env (demo_store\<lparr>users := []\<rparr>) (mkRequest ''tok:u3'' [] JNull)
     = Inl (401, ''User not found'')
   \<and> authMiddleware demo_env orphaned_store (mkRequest ''tok:u3'' [] JNull)
     = Inl (401, ''User not found'')
   \<and> map_sum id (\<lambda>user. (u_isActive user, u_roleId user, r_name (u_role user),
                           c_id (u_company user), map perm_module (u_permissions user)))
        (authMiddleware demo_env demo_store (mkRequest ''tok:u3'' [] JNull))
     = Inr (False, ''user'', ''User'', ''A'', [''invoices'', ''customers''])"
proof -
  have 1: "extractTokenFromHeader (authorization (mkRequest ''tok:u3'' [] JNull)) = Some ''tok:u3''"
    by (simp add: demo_defs auth_defs)
  have 2: "''tok:u3'' \<noteq> []" by simp
  have 3: "verifyToken demo_env ''tok:u3'' =
             Some \<lparr>jp_userId = ''u3'', jp_companyId = ''A'', jp_roleId = ''user'', jp_email = ''cy@a.com''\<rparr>"
    by (simp add: demo_defs auth_defs)
  note t = authMiddleware_loads_current_user [OF 1 2 3]
  have a: "authMiddleware demo_env (demo_store\<lparr>users := []\<rparr>) (mkRequest ''tok:u3'' [] JNull)
             = Inl (401, ''User not found'')"
    using t [of "demo_store\<lparr>users := []\<rparr>", THEN conjunct1] by simp
  have f: "find (\<lambda>u. u_id u = ''u3'') (users orphaned_store) = Some (mkUser ''u3'' ''A'' ''user'' ''cy@a.com'' False)"
    "find (\<lambda>u. u_id u = ''u3'') (users demo_store) = Some (mkUser ''u3'' ''A'' ''user'' ''cy@a.com'' False)"
    by (simp_all add: demo_defs)
  have b: "authMiddleware demo_env orphaned_store (mkRequest ''tok:u3'' [] JNull)
             = Inl (401, ''User not found'')"
    using t [of orphaned_store, THEN conjunct2, rule_format, of "mkUser ''u3'' ''A'' ''user'' ''cy@a.com'' False",
             THEN conjunct1] f
    by (simp add: demo_defs)
  have g: "find (\<lambda>r. r_id r = ''user'') (roles demo_store)
             = Some \<lparr>r_id = ''user'', r_name = ''User'', r_description = None\<rparr>"
    "find (\<lambda>c. c_id c = ''A'') (companies demo_store) = Some (mkCompany ''A'')"
    by (simp_all add: demo_defs)
  have p: "filter (\<lambda>p. perm_roleId p = ''user'') (permissions demo_store)
             = [mkPerm ''user'' ''invoices'' True True False False,
                mkPerm ''user'' ''customers'' True False True False]"
    by (simp add: demo_store_def mkPerm_def)
  from t [of demo_store, THEN conjunct2, rule_format, of "mkUser ''u3'' ''A'' ''user'' ''cy@a.com'' False",
          THEN conjunct2, rule_format,
          of "\<lparr>r_id = ''user'', r_name = ''User'', r_description = None\<rparr>" "mkCompany ''A''"]
    f g
  obtain user where u: "authMiddleware demo_env demo_store (mkRequest ''tok:u3'' [] JNull) = Inr user"
    and v: "u_isActive user = False" "u_roleId user = ''user''"
      "u_role user = \<lparr>r_id = ''user'', r_name = ''User'', r_description = None\<rparr>"
      "u_company user = mkCompany ''A''"
      "u_permissions user = filter (\<lambda>p. perm_roleId p = ''user'') (permissions demo_store)"
    by (auto simp: mkUser_def)
  have c: "map_sum id (\<lambda>user. (u_isActive user, u_roleId user, r_name (u_role user),
                           c_id (u_company user), map perm_module (u_permissions user)))
        (authMiddleware demo_env demo_store (mkRequest ''tok:u3'' [] JNull))
     = Inr (False, ''user'', ''User'', ''A'', [''invoices'', ''customers''])"
    by (simp add: u v p mkPerm_def mkCompany_def)
  show ?thesis
    using a b c by simp
qed

text \<open>
  C5 as stated fails: the token issued to \<open>u1\<close> carries role \<open>admin\<close>; with it a product
  can be deleted before the demotion and the same request is answered 403 after it.
\<close>

theorem session_demotion_counterexample:
  "map_option jp_roleId (verifyToken demo_env ''tok:u1'') = Some ''admin''
   \<and> fst (delete_products demo_env (demo_store\<lparr>products := [product_of_B]\<rparr>)
            (mkRequest ''tok:u1'' ''p1'' JNull)) = Success 204 ()
   \<and> fst (delete_products demo_env (demoted_store\<lparr>products := [product_of_B]\<rparr>)
            (mkRequest ''tok:u1'' ''p1'' JNull)) = Failure 403 ''Insufficient permissions''"
  by (simp add: demo_defs store_defs auth_defs delete_products_def requirePermission_def deleteProduct_def)

subsection \<open>Tenant scope of requests by id\<close>

text \<open>
  C1. The claim asks for a 403 whenever a caller who is no Super Admin targets a record
  of another tenant. The routes by id do not compare the record's \<open>companyId\<close> with the
  caller's: \<open>DELETE /api/products/:id\<close> has no scope middleware at all, and
  \<open>requireCompanyScope\<close> on the user routes looks only at a \<open>companyId\<close> sent with the
  request. Here \<open>u1\<close>, Company Admin of tenant \<open>A\<close>, deletes a product and a user of
  tenant \<open>B\<close>; both requests are answered 204 and both rows are gone.
\<close>

theorem cross_tenant_delete_succeeds:
  "map_sum id u_companyId (authMiddleware demo_env demo_store (mkRequest ''tok:u1'' ''p1'' JNull)) = Inr ''A''
   \<and> map_sum id (\<lambda>u. r_name (u_role u)) (authMiddleware demo_env demo_store (mkRequest ''tok:u1'' ''p1'' JNull))
        = Inr ''Company Admin''
   \<and> pr_companyId product_of_B = ''B''
   \<and> delete_products demo_env (demo_store\<lparr>products := [product_of_B]\<rparr>) (mkRequest ''tok:u1'' ''p1'' JNull)
        = (Success 204 (), demo_store\<lparr>products := []\<rparr>)
   \<and> status_of (fst (delete_users demo_env demo_store (mkRequest ''tok:u1'' ''u2'' JNull))) = 204
   \<and> map u_id (users (snd (delete_users demo_env demo_store (mkRequest ''tok:u1'' ''u2'' JNull)))) = [''u1'', ''u3'']"
  by (simp add: demo_defs store_defs auth_defs route_defs Let_def)

subsection \<open>Invoice creation\<close>

text \<open>
  C2. The claim asks that a stored invoice has \<open>subtotal\<close> equal to the sum of its items'
  totals, \<open>tax = subtotal * 0.08\<close> and \<open>total = subtotal + tax\<close>. \<open>POST /api/invoices\<close>
  stores the three numbers of the request body as they are: a body with subtotal 100,
  tax 0, total 5 and one item of total 10 is answered 201 and stored unchanged.
\<close>

theorem stored_totals_not_recomputed:
  "status_of (fst (post_invoices demo_env demo_store
        (mkRequest ''tok:u1'' [] (invoice_body ''A'' 100 0 5 [item_json 1 10 10])))) = 201
   \<and> map (\<lambda>i. (inv_subtotal i, inv_tax i, inv_total i))
        (invoices (snd (post_invoices demo_env demo_store
           (mkRequest ''tok:u1'' [] (invoice_body ''A'' 100 0 5 [item_json 1 10 10])))))
       = [(100, 0, 5)]
   \<and> map it_total
        (invoice_items (snd (post_invoices demo_env demo_store
           (mkRequest ''tok:u1'' [] (invoice_body ''A'' 100 0 5 [item_json 1 10 10])))))
       = [10]"
  by (simp add: demo_defs store_defs auth_defs route_defs parse_defs record_defs enumerate_eq_zip Let_def)

text \<open>
  C3. The claim asks that an invoice without line items is rejected before anything is
  written. The server parses \<open>items\<close> with \<open>z.array(insertInvoiceItemSchema)\<close>, which
  accepts the empty array: the request is answered 201 and the invoice row is written.
\<close>

theorem empty_invoice_is_stored:
  "status_of (fst (post_invoices demo_env demo_store
        (mkRequest ''tok:u1'' [] (invoice_body ''A'' 0 0 0 [])))) = 201
   \<and> map inv_invoiceNumber (invoices (snd (post_invoices demo_env demo_store
        (mkRequest ''tok:u1'' [] (invoice_body ''A'' 0 0 0 []))))) = [''INV-1'']
   \<and> invoice_items (snd (post_invoices demo_env demo_store
        (mkRequest ''tok:u1'' [] (invoice_body ''A'' 0 0 0 [])))) = []"
  by (simp add: demo_defs store_defs auth_defs route_defs parse_defs record_defs enumerate_eq_zip Let_def)

text \<open>
  C4. The claim asks that a line's total is \<open>quantity * unitPrice\<close> and that a quantity
  below 1 or a negative unit price is rejected. The server's \<open>insertInvoiceItemSchema\<close>
  takes any three numbers: a line with quantity -2, unit price -3 and total 100 is
  answered 201 and stored as sent.
\<close>

theorem invalid_line_item_is_stored:
  "status_of (fst (post_invoices demo_env demo_store
        (mkRequest ''tok:u1'' [] (invoice_body ''A'' 100 8 108 [item_json (-2) (-3) 100])))) = 201
   \<and> map (\<lambda>i. (it_quantity i, it_unitPrice i, it_total i))
        (invoice_items (snd (post_invoices demo_env demo_store
           (mkRequest ''tok:u1'' [] (invoice_body ''A'' 100 8 108 [item_json (-2) (-3) 100])))))
       = [(-2, -3, 100)]"
  by (simp add: demo_defs store_defs auth_defs route_defs parse_defs record_defs enumerate_eq_zip Let_def)

subsection \<open>The tenant of a created record\<close>

lemma post_products_companyId:
  assumes "post_products env st req = (Success c p, st')"
  shows "\<exists>user. authMiddleware env st req = Inr user \<and> pr_companyId p = u_companyId user
           \<and> products st' = products st @ [p]"
  using assms
  by (auto simp: post_products_def createProduct_def Let_def InsertProduct.defs Product.defs
           split: sum.splits option.splits prod.splits)

lemma post_customers_companyId:
  assumes "post_customers env st req = (Success c cu, st')"
  shows "\<exists>user. authMiddleware env st req = Inr user \<and> cu_companyId cu = u_companyId user
           \<and> customers st' = customers st @ [cu]"
  using assms
  by (auto simp: post_customers_def createCustomer_def Let_def InsertCustomer.defs Customer.defs
           split: sum.splits option.splits prod.splits)

lemma post_invoices_companyId:
  assumes "post_invoices env st req = (Success c invoice, st')"
  shows "\<exists>user. authMiddleware env st req = Inr user \<and> inv_companyId invoice = u_companyId user
           \<and> invoices st' = invoices st @ [invoice]"
  using assms
  by (auto simp: post_invoices_def createInvoice_def Let_def InsertInvoice.defs Invoice.defs
           split: sum.splits option.splits prod.splits)

lemma post_users_companyId:
  assumes "post_users env st req = (Success c u, st')"
  shows "\<exists>user. authMiddleware env st req = Inr user
           \<and> (r_name (u_role user) \<noteq> ''Super Admin'' \<longrightarrow> u_companyId u = u_companyId user)
           \<and> users st' = users st @ [u]"
  using assms
  by (auto simp: post_users_def createUser_def getUsers_def Let_def InsertUser.defs User.defs
           split: sum.splits option.splits prod.splits if_splits)

text \<open>
  C10. Whenever \<open>POST /api/products\<close>, \<open>/api/customers\<close> or \<open>/api/invoices\<close> answers
  with a created record, the caller was authenticated, the record carries the caller's
  \<open>companyId\<close> whatever the body said, and it is the row appended to the store. The same
  holds for \<open>POST /api/users\<close> when the caller's role is not \<open>Super Admin\<close>.
\<close>

theorem create_routes_stamp_companyId:
  "(post_products env st req = (Success c p, st') \<longrightarrow>
      (\<exists>user. authMiddleware env st req = Inr user \<and> pr_companyId p = u_companyId user
           \<and> products st' = products st @ [p]))
   \<and> (post_customers env st req = (Success c cu, st') \<longrightarrow>
      (\<exists>user. authMiddleware env st req = Inr user \<and> cu_companyId cu = u_companyId user
           \<and> customers st' = customers st @ [cu]))
   \<and> (post_invoices env st req = (Success c invoice, st') \<longrightarrow>
      (\<exists>user. authMiddleware env st req = Inr user \<and> inv_companyId invoice = u_companyId user
           \<and> invoices st' = invoices st @ [invoice]))
   \<and> (post_users env st req = (Success c u, st') \<longrightarrow>
      (\<exists>user. authMiddleware env st req = Inr user
           \<and> (r_name (u_role user) \<noteq> ''Super Admin'' \<longrightarrow> u_companyId u = u_companyId user)
           \<and> users st' = users st @ [u]))"
proof (intro conjI impI)
  assume "post_products env st req = (Success c p, st')"
  then show "\<exists>user. authMiddleware env st req = Inr user \<and> pr_companyId p = u_companyId user
           \<and> products st' = products st @ [p]"
    by (rule post_products_companyId)
next
  assume "post_customers env st req = (Success c cu, st')"
  then show "\<exists>user. authMiddleware env st req = Inr user \<and> cu_companyId cu = u_companyId user
           \<and> customers st' = customers st @ [cu]"
    by (rule post_customers_companyId)
next
  assume "post_invoices env st req = (Success c invoice, st')"
  then show "\<exists>user. authMiddleware env st req = Inr user \<and> inv_companyId invoice = u_companyId user
           \<and> invoices st' = invoices st @ [invoice]"
    by (rule post_invoices_companyId)
next
  assume "post_users env st req = (Success c u, st')"
  then show "\<exists>user. authMiddleware env st req = Inr user
           \<and> (r_name (u_role user) \<noteq> ''Super Admin'' \<longrightarrow> u_companyId u = u_companyId user)
           \<and> users st' = users st @ [u]"
    by (rule post_users_companyId)
qed

text \<open>
  \<open>u1\<close> of tenant \<open>A\<close> creates a product, a customer and an invoice whose bodies name
  tenant \<open>B\<close>, and a user whose body names no tenant.
\<close>

theorem create_routes_stamp_companyId_witness:
  "fst (post_products demo_env demo_store (mkRequest ''tok:u1'' [] (product_body ''B''))) = Success 201 new_product
   \<and> pr_companyId new_product = ''A''
   \<and> map cu_companyId (customers (snd (post_customers demo_env demo_store
          (mkRequest ''tok:u1'' [] (customer_body ''B''))))) = [''A'']
   \<and> map inv_companyId (invoices (snd (post_invoices demo_env demo_store
          (mkRequest ''tok:u1'' [] (invoice_body ''B'' 10 0 10 [item_json 1 10 10]))))) = [''A'']
   \<and> map u_companyId (users (snd (post_users demo_env demo_store
          (mkRequest ''tok:u1'' [] (user_body []))))) = [''A'', ''B'', ''A'', ''A'']"
proof -
  have auth: "\<And>b. map_sum id u_companyId (authMiddleware demo_env demo_store (mkRequest ''tok:u1'' [] b)) = Inr ''A''"
    by (simp add: demo_defs store_defs auth_defs)
  have role: "\<And>b. map_sum id (\<lambda>u. r_name (u_role u)) (authMiddleware demo_env demo_store (mkRequest ''tok:u1'' [] b)) = Inr ''Company Admin''"
    by (simp add: demo_defs store_defs auth_defs)
  obtain st1 where r1: "post_products demo_env demo_store (mkRequest ''tok:u1'' [] (product_body ''B'')) = (Success 201 new_product, st1)"
    by (simp add: demo_defs store_defs auth_defs route_defs parse_defs record_defs Let_def new_product_def)
  obtain cu st2 where r2: "post_customers demo_env demo_store (mkRequest ''tok:u1'' [] (customer_body ''B'')) = (Success 201 cu, st2)"
    by (simp add: demo_defs store_defs auth_defs route_defs parse_defs record_defs Let_def)
  obtain invoice st3 where r3: "post_invoices demo_env demo_store (mkRequest ''tok:u1'' [] (invoice_body ''B'' 10 0 10 [item_json 1 10 10])) = (Success 201 invoice, st3)"
    by (simp add: demo_defs store_defs auth_defs route_defs parse_defs record_defs Let_def enumerate_eq_zip)
  obtain u st4 where r4: "post_users demo_env demo_store (mkRequest ''tok:u1'' [] (user_body [])) = (Success 201 u, st4)"
    by (simp add: demo_defs store_defs auth_defs route_defs parse_defs record_defs Let_def)
  have us: "map u_companyId (users demo_store) = [''A'', ''B'', ''A'']"
    by (simp add: demo_defs)
  have e: "customers demo_store = []" "invoices demo_store = []"
    by (simp_all add: demo_defs)
  from create_routes_stamp_companyId [THEN conjunct1, rule_format, OF r1] auth [of "product_body ''B''"]
  have c1: "pr_companyId new_product = ''A''" by auto
  from create_routes_stamp_companyId [THEN conjunct2, THEN conjunct1, rule_format, OF r2]
    auth [of "customer_body ''B''"]
  have c2: "cu_companyId cu = ''A''" "customers st2 = [cu]" by (auto simp: e)
  from create_routes_stamp_companyId [THEN conjunct2, THEN conjunct2, THEN conjunct1, rule_format, OF r3]
    auth [of "invoice_body ''B'' 10 0 10 [item_json 1 10 10]"]
  have c3: "inv_companyId invoice = ''A''" "invoices st3 = [invoice]" by (auto simp: e)
  from create_routes_stamp_companyId [THEN conjunct2, THEN conjunct2, THEN conjunct2, rule_format, OF r4]
    auth [of "user_body []"] role [of "user_body []"]
  have c4: "u_companyId u = ''A''" "users st4 = users demo_store @ [u]" by auto
  show ?thesis
    using r1 r2 r3 r4 c1 c2 c3 c4 us by simp
qed

subsection \<open>Rounding to a double\<close>

lemma pow2_pos [simp]: "0 < pow2 k"
  by (simp add: pow2_def)

lemma pow2_mono: "i \<le> j \<Longrightarrow> pow2 i \<le> pow2 j"
  by (simp add: pow2_def power_int_increasing)

lemma pow2_strict_mono: "i < j \<Longrightarrow> pow2 i < pow2 j"
  by (simp add: pow2_def power_int_strict_increasing)

lemma pow2_add: "pow2 (i + j) = pow2 i * pow2 j"
  by (simp add: pow2_def power_int_add)

lemma binade_ge: "e0 \<le> binade e0 a"
proof (induction e0 a rule: binade.induct)
  case (1 e a)
  show ?case
  proof (cases "1024 \<le> e \<or> a < pow2 (e + 1)")
    case True
    then show ?thesis by (subst binade.simps) simp
  next
    case False
    with 1 have "e + 1 \<le> binade (e + 1) a" by simp
    with False show ?thesis by (subst binade.simps) simp
  qed
qed

lemma binade_le: "e0 \<le> k \<Longrightarrow> a < pow2 (k + 1) \<Longrightarrow> binade e0 a \<le> k"
proof (induction e0 a rule: binade.induct)
  case (1 e a)
  show ?case
  proof (cases "1024 \<le> e \<or> a < pow2 (e + 1)")
    case True
    then show ?thesis using 1(2) by (subst binade.simps) simp
  next
    case False
    have "e \<noteq> k" using False 1(3) by auto
    with 1(2) have "e + 1 \<le> k" by simp
    with 1(1) [OF False] 1(3) have "binade (e + 1) a \<le> k" by simp
    with False show ?thesis by (subst binade.simps) simp
  qed
qed

lemma binade_eqI:
  assumes "e0 \<le> e" and "e \<le> 1023" and "a < pow2 (e + 1)" and "e0 < e \<Longrightarrow> pow2 e \<le> a"
  shows "binade e0 a = e"
  using assms
proof (induction e0 a rule: binade.induct)
  case (1 e0 a)
  show ?case
  proof (cases "e0 = e")
    case True
    then show ?thesis using 1(4) by (subst binade.simps) simp
  next
    case False
    with 1(2) have lt: "e0 < e" by simp
    then have "pow2 (e0 + 1) \<le> pow2 e" by (intro pow2_mono) simp
    with 1(5) [OF lt] have nl: "\<not> a < pow2 (e0 + 1)" by simp
    have ne: "\<not> 1024 \<le> e0" using lt 1(3) by simp
    from ne nl have c: "\<not> (1024 \<le> e0 \<or> a < pow2 (e0 + 1))" by simp
    have "binade (e0 + 1) a = e"
      using 1(1) [OF c] lt 1(3,4,5) by simp
    with c show ?thesis by (subst binade.simps) simp
  qed
qed

lemma binade_overflow:
  assumes "pow2 1024 \<le> a" and "e0 \<le> 1024"
  shows "binade e0 a = 1024"
  using assms
proof (induction e0 a rule: binade.induct)
  case (1 e0 a)
  show ?case
  proof (cases "e0 = 1024")
    case True
    then show ?thesis by (subst binade.simps) simp
  next
    case False
    with 1(3) have lt: "e0 < 1024" by simp
    then have "pow2 (e0 + 1) \<le> pow2 1024" by (intro pow2_mono) simp
    with 1(2) have nl: "\<not> a < pow2 (e0 + 1)" by simp
    from lt nl have c: "\<not> (1024 \<le> e0 \<or> a < pow2 (e0 + 1))" by simp
    have "binade (e0 + 1) a = 1024"
      using 1(1) [OF c] lt 1(2) by simp
    with c show ?thesis by (subst binade.simps) simp
  qed
qed

lemma round_even_eqI: "of_int n - 1 / 2 < q \<Longrightarrow> q < of_int n + 1 / 2 \<Longrightarrow> round_even q = n"
proof -
  assume a: "of_int n - 1 / 2 < q" and b: "q < of_int n + 1 / 2"
  have "\<lfloor>q\<rfloor> = n \<or> \<lfloor>q\<rfloor> = n - 1"
  proof -
    have "of_int (n - 1) \<le> q" using a by simp
    then have "n - 1 \<le> \<lfloor>q\<rfloor>" by (simp only: le_floor_iff)
    moreover have "q < of_int (n + 1)" using b by simp
    then have "\<lfloor>q\<rfloor> < n + 1" by (simp only: floor_less_iff)
    ultimately show ?thesis by linarith
  qed
  then show ?thesis
  proof
    assume f: "\<lfloor>q\<rfloor> = n"
    then have "q - of_int n < 1 / 2" using b by linarith
    then show ?thesis by (simp add: round_even_def f Let_def)
  next
    assume f: "\<lfloor>q\<rfloor> = n - 1"
    then have "1 / 2 < q - of_int (n - 1)" using a by simp
    then show ?thesis by (simp add: round_even_def f Let_def)
  qed
qed

lemma round_even_of_int [simp]: "round_even (of_int n) = n"
  by (rule round_even_eqI) simp_all

lemma round_even_le: "q \<le> of_int n \<Longrightarrow> round_even q \<le> n"
proof -
  assume a: "q \<le> of_int n"
  show ?thesis
  proof (cases "q = of_int n")
    case True
    then show ?thesis by simp
  next
    case False
    with a have "q < of_int n" by simp
    then have "\<lfloor>q\<rfloor> < n" by (simp only: floor_less_iff)
    then have "\<lfloor>q\<rfloor> + 1 \<le> n" by simp
    then show ?thesis by (auto simp: round_even_def Let_def)
  qed
qed

lemma round_even_ge: "of_int n \<le> q \<Longrightarrow> n \<le> round_even q"
proof -
  assume "of_int n \<le> q"
  then have "n \<le> \<lfloor>q\<rfloor>" by (simp only: le_floor_iff)
  then show ?thesis by (auto simp: round_even_def Let_def)
qed

lemma round_double_not_NaN [simp]: "round_double x \<noteq> NaN"
  by (simp add: round_double_def Let_def)

lemma round_double_FiniteI:
  assumes "binade (- 1022) \<bar>x\<bar> = e"
      and "of_int n - 1 / 2 < x / pow2 (e - 52)"
      and "x / pow2 (e - 52) < of_int n + 1 / 2"
      and "\<bar>of_int n * pow2 (e - 52)\<bar> < pow2 1024"
  shows "round_double x = Finite (of_int n * pow2 (e - 52))"
  using assms(4) by (simp add: round_double_def Let_def assms(1) round_even_eqI [OF assms(2,3)])

lemma round_double_InfinityI:
  assumes "pow2 1024 \<le> x"
  shows "round_double x = Infinity False"
proof -
  have x: "\<bar>x\<bar> = x" "\<not> x < 0"
    using assms pow2_pos [of 1024] by linarith+
  have e: "binade (- 1022) x = 1024"
    using assms by (simp add: binade_overflow)
  have "pow2 1024 = of_int (2 ^ 52) * pow2 972"
    by (simp add: pow2_def)
  then have "of_int (2 ^ 52) \<le> x / pow2 972"
    using assms by (simp add: pos_le_divide_eq)
  then have "2 ^ 52 \<le> round_even (x / pow2 972)"
    by (rule round_even_ge)
  then have "(of_int (2 ^ 52) :: rat) \<le> of_int (round_even (x / pow2 972))"
    by (simp only: of_int_le_iff)
  then have "of_int (2 ^ 52) * pow2 972 \<le> of_int (round_even (x / pow2 972)) * pow2 972"
    by (simp add: mult_right_mono)
  moreover have "0 \<le> round_even (x / pow2 972)"
    using \<open>2 ^ 52 \<le> round_even (x / pow2 972)\<close> order_trans [of 0 "2 ^ 52" "round_even (x / pow2 972)"]
    by simp
  then have "0 \<le> of_int (round_even (x / pow2 972)) * pow2 972"
    by (simp add: less_imp_le)
  ultimately have "pow2 1024 \<le> \<bar>of_int (round_even (x / pow2 972)) * pow2 972\<bar>"
    using \<open>pow2 1024 = of_int (2 ^ 52) * pow2 972\<close> by linarith
  then show ?thesis
    by (simp add: round_double_def Let_def e x)
qed

lemma round_double_bounded:
  assumes "- 1022 \<le> k" and "k \<le> 1023" and "\<bar>x\<bar> \<le> pow2 k"
  shows "\<exists>y. round_double x = Finite y \<and> \<bar>y\<bar> \<le> pow2 k"
proof -
  define e where "e = binade (- 1022) \<bar>x\<bar>"
  define ulp where "ulp = pow2 (e - 52)"
  define N :: int where "N = 2 ^ nat (k - e + 52)"
  have "pow2 k < pow2 (k + 1)"
    by (intro pow2_strict_mono) simp
  with assms(3) have "\<bar>x\<bar> < pow2 (k + 1)" by simp
  with assms(1) have ek: "e \<le> k" unfolding e_def by (rule binade_le)
  have ulp_pos: "0 < ulp" by (simp add: ulp_def)
  have "pow2 k = pow2 (k - e + 52) * pow2 (e - 52)"
    by (simp add: pow2_add [symmetric])
  moreover have "pow2 (k - e + 52) = of_int N"
    using ek by (simp add: N_def pow2_def power_int_nonneg_exp)
  ultimately have kN: "pow2 k = of_int N * ulp" by (simp add: ulp_def)
  have "x \<le> of_int N * ulp" "of_int (- N) * ulp \<le> x"
    using assms(3) kN by (simp_all add: abs_le_iff)
  then have "x / ulp \<le> of_int N" "of_int (- N) \<le> x / ulp"
    using ulp_pos by (simp_all add: pos_divide_le_eq pos_le_divide_eq)
  then have "round_even (x / ulp) \<le> N" "- N \<le> round_even (x / ulp)"
    by (auto intro: round_even_le round_even_ge)
  then have "\<bar>(of_int (round_even (x / ulp)) :: rat)\<bar> \<le> of_int N"
    by (simp add: abs_le_iff)
  then have "\<bar>of_int (round_even (x / ulp)) * ulp\<bar> \<le> of_int N * ulp"
    using ulp_pos by (simp add: abs_mult mult_right_mono)
  then have b: "\<bar>of_int (round_even (x / ulp)) * ulp\<bar> \<le> pow2 k"
    using kN by simp
  have "pow2 k < pow2 1024"
    using assms(2) by (intro pow2_strict_mono) simp
  with b have "\<not> pow2 1024 \<le> \<bar>of_int (round_even (x / ulp)) * ulp\<bar>" by simp
  then have "round_double x = Finite (of_int (round_even (x / ulp)) * ulp)"
    by (simp add: round_double_def Let_def e_def [symmetric] ulp_def [symmetric])
  with b show ?thesis by simp
qed

subsection \<open>Collection rate of the sales report\<close>

lemmas report_defs = mkInvoice_def report_customers_def salesReportData_def
  salesByCustomer_def group_invoice_def add_invoice_def getCustomerName_def total_of_def

lemma map_of_map_entry:
  "map_of (map (\<lambda>(k, row). if k = n then (k, f row) else (k, row)) xs) k
     = (if k = n then map_option f (map_of xs k) else map_of xs k)"
  by (induction xs) auto

lemma map_of_group_invoice:
  "map_of (group_invoice cs acc i) k =
     (if k = getCustomerName cs (inv_customerId i)
      then Some (add_invoice
                  (case map_of acc k of
                     None \<Rightarrow> \<lparr>sr_customerName = k, sr_invoiceCount = 0,
                              sr_totalRevenue = Finite 0, sr_paidRevenue = Finite 0\<rparr>
                   | Some r \<Rightarrow> r) i)
      else map_of acc k)"
  by (auto simp: group_invoice_def Let_def map_of_map_entry map_add_def split: option.splits)

lemma keys_group_invoice:
  "map fst (group_invoice cs acc i) =
     (if getCustomerName cs (inv_customerId i) \<in> set (map fst acc) then map fst acc
      else map fst acc @ [getCustomerName cs (inv_customerId i)])"
proof -
  have "map fst (map (\<lambda>(k, row). if k = n then (k, f row) else (k, row)) xs) = map fst xs"
    for n f and xs :: "(string \<times> SalesRow) list"
    by (induction xs) auto
  then show ?thesis
    by (auto simp: group_invoice_def Let_def map_of_eq_None_iff)
qed

lemma distinct_salesByCustomer:
  "distinct (map fst acc) \<Longrightarrow> distinct (map fst (foldl (group_invoice cs) acc is))"
  by (induction "is" arbitrary: acc) (simp_all add: keys_group_invoice)

text \<open>Each entry holds the left-to-right sums over the invoices of its customer name.\<close>

lemma sums_salesByCustomer:
  assumes "map_of (foldl (group_invoice cs) acc is) k = Some row"
  shows "\<exists>start. (case map_of acc k of
                     None \<Rightarrow> \<lparr>sr_customerName = k, sr_invoiceCount = 0,
                              sr_totalRevenue = Finite 0, sr_paidRevenue = Finite 0\<rparr>
                   | Some r \<Rightarrow> r) = start
          \<and> sr_customerName row = sr_customerName start
          \<and> sr_invoiceCount row = sr_invoiceCount start
               + length (filter (\<lambda>i. getCustomerName cs (inv_customerId i) = k) is)
          \<and> sr_totalRevenue row = foldl js_add (sr_totalRevenue start)
               (map total_of (filter (\<lambda>i. getCustomerName cs (inv_customerId i) = k) is))
          \<and> sr_paidRevenue row = foldl js_add (sr_paidRevenue start)
               (map total_of
                  (filter (\<lambda>i. getCustomerName cs (inv_customerId i) = k \<and> inv_status i = paid) is))"
  using assms
proof (induction "is" arbitrary: acc)
  case Nil
  then show ?case by simp
next
  case (Cons i "is")
  from Cons.prems have "map_of (foldl (group_invoice cs) (group_invoice cs acc i) is) k = Some row"
    by simp
  from Cons.IH [OF this] show ?case
    by (auto simp: map_of_group_invoice add_invoice_def Let_def split: option.splits if_splits)
qed

text \<open>The rate by the shape of the two sums.\<close>

lemma rate_of_finite:
  assumes "sr_totalRevenue item = Finite t" and "0 < t" and "sr_paidRevenue item = Finite p"
  shows "collectionRate item = toFixed1 (js_mul (round_double (p / t)) (Finite 100))"
    and "collectionRate item \<noteq> NaNText"
    and "\<bar>p\<bar> \<le> 2 ^ 1016 * t \<Longrightarrow> collectionRate item \<noteq> InfinityText neg"
proof -
  show r: "collectionRate item = toFixed1 (js_mul (round_double (p / t)) (Finite 100))"
    using assms by (simp add: collectionRate_def)
  show "collectionRate item \<noteq> NaNText"
  proof (cases "round_double (p / t)")
    case (Finite d)
    then show ?thesis
      by (cases "round_double (d * 100)") (simp_all add: r)
  next
    case (Infinity s)
    then show ?thesis by (simp add: r)
  next
    case NaN
    then show ?thesis by simp
  qed
  show "collectionRate item \<noteq> InfinityText neg" if b: "\<bar>p\<bar> \<le> 2 ^ 1016 * t"
  proof -
    have "\<bar>p / t\<bar> \<le> pow2 1016"
      using b assms(2) by (simp add: pow2_def abs_divide pos_divide_le_eq)
    from round_double_bounded [OF _ _ this]
    obtain d where d: "round_double (p / t) = Finite d" "\<bar>d\<bar> \<le> pow2 1016"
      by auto
    have "\<bar>d * 100\<bar> \<le> pow2 1016 * 128"
      using d(2) by (simp add: abs_mult) 
    also have "pow2 1016 * 128 = pow2 1023"
      by (simp add: pow2_def)
    finally have "\<bar>d * 100\<bar> \<le> pow2 1023" .
    from round_double_bounded [OF _ _ this]
    obtain y where "round_double (d * 100) = Finite y"
      by auto
    then show ?thesis
      by (simp add: r d(1))
  qed
qed

lemma rate_NaN_only:
  assumes "collectionRate item = NaNText"
  shows "sr_totalRevenue item = Infinity False \<or> sr_paidRevenue item = NaN"
proof (cases "sr_totalRevenue item")
  case (Finite t)
  show ?thesis
  proof (cases "sr_paidRevenue item")
    case (Finite p)
    with \<open>sr_totalRevenue item = Finite t\<close> assms rate_of_finite(2) [of item t p]
    show ?thesis by (cases "0 < t") (simp_all add: collectionRate_def)
  next
    case (Infinity s)
    with \<open>sr_totalRevenue item = Finite t\<close> assms show ?thesis
      by (simp add: collectionRate_def split: if_splits)
  next
    case NaN
    then show ?thesis by simp
  qed
next
  case (Infinity s)
  with assms show ?thesis
    by (simp add: collectionRate_def split: if_splits)
next
  case NaN
  with assms show ?thesis
    by (simp add: collectionRate_def)
qed

text \<open>
  C9, as amended. Every row of the sales report holds, for its customer name, the sum of
  the invoice totals and the sum of the paid invoices' totals, added as doubles in the
  order of the invoices. The rate cell is the number \<open>0\<close> whenever \<open>totalRevenue > 0\<close>
  is false, in particular when \<open>totalRevenue\<close> is 0. When both sums are finite and \<open>totalRevenue\<close> is positive, the cell is
  \<open>toFixed(1)\<close> of the double \<open>(paidRevenue / totalRevenue) * 100\<close>; it is never \<open>NaN\<close>,
  and it is no infinity as long as the magnitude of \<open>paidRevenue\<close> is at most \<open>2^1016\<close>
  times \<open>totalRevenue\<close>. The cell is \<open>NaN\<close> only when \<open>totalRevenue\<close> is \<open>Infinity\<close> or
  \<open>paidRevenue\<close> is \<open>NaN\<close>.
\<close>

theorem collection_rate_guarded:
  "\<forall>item \<in> set (salesReportData customerList (Some invoiceList)).
      sr_totalRevenue item
        = foldl js_add (Finite 0)
            (map total_of
               (filter (\<lambda>i. getCustomerName customerList (inv_customerId i) = sr_customerName item)
                  invoiceList))
    \<and> sr_paidRevenue item
        = foldl js_add (Finite 0)
            (map total_of
               (filter (\<lambda>i. getCustomerName customerList (inv_customerId i) = sr_customerName item
                             \<and> inv_status i = paid) invoiceList))
    \<and> (\<not> js_gt0 (sr_totalRevenue item) \<longrightarrow> collectionRate item = Zero)
    \<and> (sr_totalRevenue item = Finite 0 \<longrightarrow> collectionRate item = Zero)
    \<and> (\<forall>t p. sr_totalRevenue item = Finite t \<and> 0 < t \<and> sr_paidRevenue item = Finite p \<longrightarrow>
           collectionRate item = toFixed1 (js_mul (round_double (p / t)) (Finite 100))
         \<and> collectionRate item \<noteq> NaNText
         \<and> (\<bar>p\<bar> \<le> 2 ^ 1016 * t \<longrightarrow> (\<forall>neg. collectionRate item \<noteq> InfinityText neg)))
    \<and> (collectionRate item = NaNText \<longrightarrow>
           sr_totalRevenue item = Infinity False \<or> sr_paidRevenue item = NaN)"
proof
  fix item
  assume "item \<in> set (salesReportData customerList (Some invoiceList))"
  then obtain k where kin: "(k, item) \<in> set (foldl (group_invoice customerList) [] invoiceList)"
    by (auto simp: salesReportData_def salesByCustomer_def)
  have "distinct (map fst (foldl (group_invoice customerList) [] invoiceList))"
    by (rule distinct_salesByCustomer) simp
  with kin have "map_of (foldl (group_invoice customerList) [] invoiceList) k = Some item"
    by simp
  from sums_salesByCustomer [OF this]
  have agg: "sr_customerName item = k"
    "sr_totalRevenue item
        = foldl js_add (Finite 0)
            (map total_of (filter (\<lambda>i. getCustomerName customerList (inv_customerId i) = k) invoiceList))"
    "sr_paidRevenue item
        = foldl js_add (Finite 0)
            (map total_of
               (filter (\<lambda>i. getCustomerName customerList (inv_customerId i) = k
                             \<and> inv_status i = paid) invoiceList))"
    by simp_all
  have guard: "collectionRate item = Zero" if "\<not> js_gt0 (sr_totalRevenue item)"
    using that by (simp add: collectionRate_def)
  have zero: "collectionRate item = Zero" if "sr_totalRevenue item = Finite 0"
    using that by (simp add: collectionRate_def)
  have fin: "collectionRate item = toFixed1 (js_mul (round_double (p / t)) (Finite 100))
         \<and> collectionRate item \<noteq> NaNText
         \<and> (\<bar>p\<bar> \<le> 2 ^ 1016 * t \<longrightarrow> (\<forall>neg. collectionRate item \<noteq> InfinityText neg))"
    if "sr_totalRevenue item = Finite t \<and> 0 < t \<and> sr_paidRevenue item = Finite p" for t p
    using that rate_of_finite [of item t p] by blast
  have nan: "sr_totalRevenue item = Infinity False \<or> sr_paidRevenue item = NaN"
    if "collectionRate item = NaNText"
    using that by (rule rate_NaN_only)
  show "sr_totalRevenue item
        = foldl js_add (Finite 0)
            (map total_of
               (filter (\<lambda>i. getCustomerName customerList (inv_customerId i) = sr_customerName item)
                  invoiceList))
    \<and> sr_paidRevenue item
        = foldl js_add (Finite 0)
            (map total_of
               (filter (\<lambda>i. getCustomerName customerList (inv_customerId i) = sr_customerName item
                             \<and> inv_status i = paid) invoiceList))
    \<and> (\<not> js_gt0 (sr_totalRevenue item) \<longrightarrow> collectionRate item = Zero)
    \<and> (sr_totalRevenue item = Finite 0 \<longrightarrow> collectionRate item = Zero)
    \<and> (\<forall>t p. sr_totalRevenue item = Finite t \<and> 0 < t \<and> sr_paidRevenue item = Finite p \<longrightarrow>
           collectionRate item = toFixed1 (js_mul (round_double (p / t)) (Finite 100))
         \<and> collectionRate item \<noteq> NaNText
         \<and> (\<bar>p\<bar> \<le> 2 ^ 1016 * t \<longrightarrow> (\<forall>neg. collectionRate item \<noteq> InfinityText neg)))
    \<and> (collectionRate item = NaNText \<longrightarrow>
           sr_totalRevenue item = Infinity False \<or> sr_paidRevenue item = NaN)"
    using agg guard zero fin nan by (simp only: simp_thms) blast
qed

text \<open>The arithmetic of the concrete reports, step by step.\<close>

lemma add_0_0: "js_add (Finite 0) (Finite 0) = Finite 0"
proof -
  have e: "binade (- 1022) \<bar>0 :: rat\<bar> = - 1022"
    by (rule binade_eqI) simp_all
  show ?thesis
    using round_double_FiniteI [OF e, of 0] by simp
qed

lemma add_0_23: "js_add (Finite 0) (Finite 23) = Finite 23"
proof -
  have e: "binade (- 1022) \<bar>23 :: rat\<bar> = 4"
    by (rule binade_eqI) (simp_all add: pow2_def)
  show ?thesis
    using round_double_FiniteI [OF e, of "23 * 2 ^ 48"] by (simp add: pow2_def)
qed

lemma add_23_57: "js_add (Finite 23) (Finite 57) = Finite 80"
proof -
  have e: "binade (- 1022) \<bar>80 :: rat\<bar> = 6"
    by (rule binade_eqI) (simp_all add: pow2_def)
  show ?thesis
    using round_double_FiniteI [OF e, of "80 * 2 ^ 46"] by (simp add: pow2_def)
qed

lemma total_of_small:
  "round_double 0 = Finite 0" "round_double 1 = Finite 1"
  "round_double 23 = Finite 23" "round_double 57 = Finite 57"
proof -
  have e0: "binade (- 1022) \<bar>0 :: rat\<bar> = - 1022"
    by (rule binade_eqI) simp_all
  have e1: "binade (- 1022) \<bar>1 :: rat\<bar> = 0"
    by (rule binade_eqI) (simp_all add: pow2_def)
  have e23: "binade (- 1022) \<bar>23 :: rat\<bar> = 4"
    by (rule binade_eqI) (simp_all add: pow2_def)
  have e57: "binade (- 1022) \<bar>57 :: rat\<bar> = 5"
    by (rule binade_eqI) (simp_all add: pow2_def)
  show "round_double 0 = Finite 0"
    using round_double_FiniteI [OF e0, of 0] by simp
  show "round_double 1 = Finite 1"
    using round_double_FiniteI [OF e1, of "2 ^ 52"] by (simp add: pow2_def)
  show "round_double 23 = Finite 23"
    using round_double_FiniteI [OF e23, of "23 * 2 ^ 48"] by (simp add: pow2_def)
  show "round_double 57 = Finite 57"
    using round_double_FiniteI [OF e57, of "57 * 2 ^ 47"] by (simp add: pow2_def)
qed

text \<open>\<open>23 / 80 * 100\<close> in doubles is \<open>28.749999999999996\<close>, which prints as \<open>28.7\<close>.\<close>

lemma rate_23_80: "toFixed1 (js_mul (round_double (23 / 80)) (Finite 100)) = Decimal1 False 287"
proof -
  have e1: "binade (- 1022) \<bar>23 / 80 :: rat\<bar> = - 2"
    by (rule binade_eqI) (simp_all add: pow2_def)
  have d: "round_double (23 / 80) = Finite (5179139571476070 / 2 ^ 54)"
    using round_double_FiniteI [OF e1, of 5179139571476070] by (simp add: pow2_def)
  have e2: "binade (- 1022) \<bar>5179139571476070 / 2 ^ 54 * 100 :: rat\<bar> = 4"
    by (rule binade_eqI) (simp_all add: pow2_def)
  have m: "round_double (5179139571476070 / 2 ^ 54 * 100) = Finite (8092405580431359 / 2 ^ 48)"
    using round_double_FiniteI [OF e2, of 8092405580431359] by (simp add: pow2_def)
  have a: "\<not> 10 ^ 21 \<le> \<bar>8092405580431359 / 2 ^ 48 :: rat\<bar>"
    and b: "\<not> (8092405580431359 / 2 ^ 48 :: rat) < 0"
    by simp_all
  have "\<lfloor>(8092405580431359 / 2 ^ 48 :: rat) * 10 + 1 / 2\<rfloor> = 287"
    by (rule floor_unique) simp_all
  then have c: "nat \<lfloor>(8092405580431359 / 2 ^ 48 :: rat) * 10 + 1 / 2\<rfloor> = 287"
    by (simp only: nat_numeral)
  show ?thesis
    by (simp only: d js_mul.simps m toFixed1.simps a b c if_False)
qed

text \<open>Totals at the top of the double range.\<close>

lemma huge_arithmetic:
  "round_double huge_total = Finite two_1023"
  "round_double (- huge_total) = Finite (- two_1023)"
  "js_add (Finite 0) (Finite two_1023) = Finite two_1023"
  "js_add (Finite two_1023) (Finite two_1023) = Infinity False"
  "js_add (Finite two_1023) (Finite (- two_1023)) = Finite 0"
  "js_add (Finite 0) (Finite 1) = Finite 1"
  "js_div (Finite two_1023) (Finite 1) = Finite two_1023"
  "js_mul (Finite two_1023) (Finite 100) = Infinity False"
proof -
  have eh: "binade (- 1022) \<bar>huge_total\<bar> = 1023" "binade (- 1022) \<bar>- huge_total\<bar> = 1023"
    by (rule binade_eqI; simp add: pow2_def huge_total_def)+
  have et: "binade (- 1022) \<bar>two_1023\<bar> = 1023"
    by (rule binade_eqI) (simp_all add: pow2_def two_1023_def)
  show "round_double huge_total = Finite two_1023"
    using round_double_FiniteI [OF eh(1), of "2 ^ 52"]
    by (simp add: pow2_def huge_total_def two_1023_def)
  show "round_double (- huge_total) = Finite (- two_1023)"
    using round_double_FiniteI [OF eh(2), of "- (2 ^ 52)"]
    by (simp add: pow2_def huge_total_def two_1023_def)
  have t: "round_double two_1023 = Finite two_1023"
    using round_double_FiniteI [OF et, of "2 ^ 52"]
    by (simp add: pow2_def two_1023_def)
  show "js_add (Finite 0) (Finite two_1023) = Finite two_1023"
    by (simp add: t)
  show "js_add (Finite two_1023) (Finite two_1023) = Infinity False"
    by (simp add: round_double_InfinityI pow2_def two_1023_def)
  show "js_add (Finite two_1023) (Finite (- two_1023)) = Finite 0"
    by (simp add: total_of_small)
  show "js_add (Finite 0) (Finite 1) = Finite 1"
    by (simp add: total_of_small)
  show "js_div (Finite two_1023) (Finite 1) = Finite two_1023"
    by (simp add: t)
  show "js_mul (Finite two_1023) (Finite 100) = Infinity False"
    by (simp add: round_double_InfinityI pow2_def two_1023_def)
qed

text \<open>
  Customer \<open>Dee\<close> has 23 paid out of 80, which shows as 28.7, the nearest tenth of the
  double \<open>28.749999999999996\<close>; the invoice of an unknown customer has total 0, which
  shows as 0.
\<close>

theorem collection_rate_guarded_witness:
  "map (\<lambda>item. (sr_customerName item, sr_invoiceCount item, sr_totalRevenue item,
                  sr_paidRevenue item, collectionRate item))
       (salesReportData (Some report_customers)
          (filteredInvoices ''all'' ''all'' (Some report_invoices)))
   = [(''Dee'', 2, Finite 80, Finite 23, Decimal1 False 287),
      (''Unknown Customer'', 1, Finite 0, Finite 0, Zero)]"
proof -
  have shown: "filteredInvoices ''all'' ''all'' (Some report_invoices) = Some report_invoices"
    by (simp add: filteredInvoices_def)
  have rows: "salesReportData (Some report_customers) (Some report_invoices)
      = [\<lparr>sr_customerName = ''Dee'', sr_invoiceCount = 2, sr_totalRevenue = Finite 80,
          sr_paidRevenue = Finite 23\<rparr>,
         \<lparr>sr_customerName = ''Unknown Customer'', sr_invoiceCount = 1, sr_totalRevenue = Finite 0,
          sr_paidRevenue = Finite 0\<rparr>]"
    by (simp add: report_defs report_invoices_def Let_def total_of_small add_0_0 add_0_23 add_23_57
             del: js_add.simps)
  have m1: "\<lparr>sr_customerName = ''Dee'', sr_invoiceCount = 2, sr_totalRevenue = Finite 80,
              sr_paidRevenue = Finite 23\<rparr>
               \<in> set (salesReportData (Some report_customers) (Some report_invoices))"
    by (simp add: rows)
  have m2: "\<lparr>sr_customerName = ''Unknown Customer'', sr_invoiceCount = 1, sr_totalRevenue = Finite 0,
              sr_paidRevenue = Finite 0\<rparr>
               \<in> set (salesReportData (Some report_customers) (Some report_invoices))"
    by (simp add: rows)
  from bspec [OF collection_rate_guarded m1, THEN conjunct2, THEN conjunct2, THEN conjunct2,
              THEN conjunct2, THEN conjunct1, rule_format, of 80 23]
  have "collectionRate \<lparr>sr_customerName = ''Dee'', sr_invoiceCount = 2, sr_totalRevenue = Finite 80,
                         sr_paidRevenue = Finite 23\<rparr>
          = toFixed1 (js_mul (round_double (23 / 80)) (Finite 100))"
    by simp
  then have a: "collectionRate \<lparr>sr_customerName = ''Dee'', sr_invoiceCount = 2,
                                 sr_totalRevenue = Finite 80, sr_paidRevenue = Finite 23\<rparr>
                  = Decimal1 False 287"
    by (simp only: rate_23_80)
  from bspec [OF collection_rate_guarded m2, THEN conjunct2, THEN conjunct2, THEN conjunct2,
              THEN conjunct1]
  have b: "collectionRate \<lparr>sr_customerName = ''Unknown Customer'', sr_invoiceCount = 1,
                            sr_totalRevenue = Finite 0, sr_paidRevenue = Finite 0\<rparr> = Zero"
    by simp
  show ?thesis
    using a b by (simp add: shown rows)
qed

text \<open>
  C9 as stated fails. Two paid invoices of \<open>8.98846567431158e+307\<close> each add up to
  \<open>Infinity\<close> in both sums, the guard \<open>totalRevenue > 0\<close> holds, and the cell is \<open>NaN\<close>.
  With one such paid invoice, its negative and an invoice of 1, \<open>totalRevenue\<close> is 1 and
  the cell is \<open>Infinity\<close>.
\<close>

theorem collection_rate_overflow_counterexample:
  "map sr_totalRevenue (salesReportData (Some report_customers) (Some overflow_invoices))
     = [Infinity False]
   \<and> map sr_paidRevenue (salesReportData (Some report_customers) (Some overflow_invoices))
     = [Infinity False]
   \<and> map collectionRate (salesReportData (Some report_customers) (Some overflow_invoices))
     = [NaNText]
   \<and> map sr_totalRevenue (salesReportData (Some report_customers) (Some huge_rate_invoices))
     = [Finite 1]
   \<and> map sr_paidRevenue (salesReportData (Some report_customers) (Some huge_rate_invoices))
     = [Finite two_1023]
   \<and> map collectionRate (salesReportData (Some report_customers) (Some huge_rate_invoices))
     = [InfinityText False]"
proof -
  have 1: "salesReportData (Some report_customers) (Some overflow_invoices)
      = [\<lparr>sr_customerName = ''Dee'', sr_invoiceCount = 2, sr_totalRevenue = Infinity False,
          sr_paidRevenue = Infinity False\<rparr>]"
    by (simp add: report_defs overflow_invoices_def Let_def huge_arithmetic del: js_add.simps)
  have 2: "salesReportData (Some report_customers) (Some huge_rate_invoices)
      = [\<lparr>sr_customerName = ''Dee'', sr_invoiceCount = 3, sr_totalRevenue = Finite 1,
          sr_paidRevenue = Finite two_1023\<rparr>]"
    by (simp add: report_defs huge_rate_invoices_def Let_def huge_arithmetic total_of_small
             del: js_add.simps)
  show ?thesis
    by (simp add: 1 2 collectionRate_def huge_arithmetic del: js_div.simps(1) js_mul.simps(1))
qed

end
